theory Spec2Isabelle
  imports
    Complex_Main
    "HOL-Library.Word"
    "HOL-Library.Char_ord"
    "HOL-Library.List_Lexorder"
    "HOL-Library.Log_Nat"
begin

unbundle bit_operations_syntax


section \<open>Fractions (src/lib/tensor/fraction.hpp)\<close>

text \<open>
  A \<open>Fraction\<close> stores \<open>int numerator\<close> and \<open>unsigned int denominator\<close>. Both are
  32-bit machine integers and are modelled as \<open>32 word\<close>: the numerator is read with
  \<open>sint\<close>, the denominator with \<open>uint\<close>. In a mixed expression such as
  \<open>numerator * other.denominator\<close> C++ converts the \<open>int\<close> operand to \<open>unsigned\<close>, computes
  modulo \<open>2^32\<close> and converts back, which is exactly word arithmetic. Where both operands
  are \<open>int\<close> (\<open>numerator * other.numerator\<close>, \<open>-numerator\<close>) an overflow is undefined in
  C++; the model wraps there as well, and no statement below depends on that choice.
\<close>

record Fraction =
  numerator :: "32 word"
  denominator :: "32 word"


















text \<open>
  The compound assignments \<open>+=\<close>, \<open>-=\<close>, \<open>*=\<close>, \<open>/=\<close> update the receiver in place and take
  their argument by reference, so the argument may be the receiver itself (\<open>a /= a\<close>).
  Objects therefore live in a memory, a function from addresses to fractions; \<open>this\<close> and
  \<open>other\<close> are addresses, and every statement reads the memory as the statement before
  left it. \<open>+=\<close> and \<open>-=\<close> compute both new fields into locals before they assign. \<open>*=\<close>
  and \<open>/=\<close> assign the numerator first; the second statement of \<open>/=\<close> reads
  \<open>other.numerator\<close>, which is the numerator just assigned when \<open>other\<close> is \<open>this\<close>.
\<close>

type_synonym memory = "nat \<Rightarrow> Fraction"




definition Fraction_div_assign :: "memory \<Rightarrow> nat \<Rightarrow> nat \<Rightarrow> memory" where
  "Fraction_div_assign m this other =
     (let m1 = m(this := (m this)\<lparr>numerator := numerator (m this) * denominator (m other)\<rparr>);
          m2 = m1(this := (m1 this)\<lparr>denominator := denominator (m1 this) * numerator (m1 other)\<rparr>)
      in m2)"

section \<open>Errors\<close>

text \<open>
  A function of the source that can fail returns \<open>error + 'a\<close>, with \<open>Inl\<close> for the
  failure. The first six values are the exceptions the code throws (the constructor of
  \<open>SubstituteTensor\<close> throws a plain \<open>Exception\<close>, here \<open>NotAPermutationException\<close>). The
  others stand for behaviour that is no exception and that no \<open>catch\<close> intercepts: a failed
  \<open>assert\<close>, an access beyond the end of a vector, a \<open>static_cast\<close> to a class the object
  does not have, a call through a null pointer and the use of a tag that was never
  assigned.
\<close>

datatype error =
    IncompleteIndexAssignmentException
  | CannotAddTensorsException
  | CannotMultiplyTensorsException
  | CannotContractTensorsException
  | NotAPermutationException
  | WrongFormatException
  | AssertionFailure
  | OutOfRange
  | BadCast
  | NullPointer
  | IndeterminateValue

fun is_exception :: "error \<Rightarrow> bool" where
  "is_exception AssertionFailure = False"
| "is_exception OutOfRange = False"
| "is_exception BadCast = False"
| "is_exception NullPointer = False"
| "is_exception IndeterminateValue = False"
| "is_exception e = True"

fun sequence_err :: "(error + 'a) list \<Rightarrow> error + 'a list" where
  "sequence_err [] = Inr []"
| "sequence_err (Inl e # rs) = Inl e"
| "sequence_err (Inr x # rs) =
     (case sequence_err rs of Inl e \<Rightarrow> Inl e | Inr xs \<Rightarrow> Inr (x # xs))"

definition nth_err :: "'a list \<Rightarrow> nat \<Rightarrow> error + 'a" where
  "nth_err xs i = (if i < length xs then Inr (xs ! i) else Inl OutOfRange)"

section \<open>Indices\<close>

text \<open>Modelled from the spec: the classes \<open>Index\<close>, \<open>IndexRange\<close> and \<open>Indices\<close> are missing
  (\<open>tensor.hpp\<close> includes their headers, which are not among the sources). An index has a
  name, an inclusive range \<open>(from, to)\<close> of non-negative values and a variance flag; an
  index sequence is an ordered list of indices.\<close>

record IndexRange =
  range_from :: nat
  range_to :: nat

record Index =
  index_name :: string
  index_range :: IndexRange
  contravariant :: bool

type_synonym Indices = "Index list"

text \<open>Modelled from the spec: \<open>Index::operator==\<close> is missing; two indices are equal iff
  names and ranges match.\<close>

definition Index_eq :: "Index \<Rightarrow> Index \<Rightarrow> bool" where
  "Index_eq a b = (index_name a = index_name b \<and> index_range a = index_range b)"

text \<open>Modelled from the spec: \<open>Indices::operator==\<close> is missing; two index sequences are
  equal iff they have the same length and are equal index by index.\<close>

definition Indices_eq :: "Indices \<Rightarrow> Indices \<Rightarrow> bool" where
  "Indices_eq a b = (length a = length b \<and> list_all (\<lambda>(x, y). Index_eq x y) (zip a b))"

text \<open>Modelled from the spec: \<open>Indices::ContainsIndex\<close> is missing; membership up to
  equality of indices.\<close>

definition ContainsIndex :: "Indices \<Rightarrow> Index \<Rightarrow> bool" where
  "ContainsIndex idx i = list_ex (Index_eq i) idx"

text \<open>Modelled from the spec: \<open>Indices::Contract\<close> is missing; it concatenates and then drops
  the names appearing in both, left operand's remaining indices first.\<close>

definition Contract :: "Indices \<Rightarrow> Indices \<Rightarrow> Indices" where
  "Contract a b =
     filter (\<lambda>i. index_name i \<notin> set (map index_name b)) a @
     filter (\<lambda>i. index_name i \<notin> set (map index_name a)) b"

text \<open>Modelled from the spec: \<open>Indices::GetAllIndexCombinations\<close> is missing; the Cartesian
  product of the index ranges, the first index varying slowest.\<close>

fun GetAllIndexCombinations :: "Indices \<Rightarrow> nat list list" where
  "GetAllIndexCombinations [] = [[]]"
| "GetAllIndexCombinations (i # idx) =
     concat (map (\<lambda>v. map ((#) v) (GetAllIndexCombinations idx))
                 [range_from (index_range i) ..< Suc (range_to (index_range i))])"

text \<open>Modelled from the spec: \<open>Indices::Ordered\<close> is missing; a stable sort by name.\<close>

definition Ordered :: "Indices \<Rightarrow> Indices" where
  "Ordered idx = sort_key index_name idx"

text \<open>Modelled from the spec: \<open>Indices::Partial\<close> is missing; the slice of the positions
  \<open>lo..hi\<close>, both included.\<close>

definition Partial :: "Indices \<Rightarrow> nat \<Rightarrow> nat \<Rightarrow> Indices" where
  "Partial idx lo hi = take (Suc hi - lo) (drop lo idx)"

fun remove_index :: "Index \<Rightarrow> Indices \<Rightarrow> Indices option" where
  "remove_index x [] = None"
| "remove_index x (y # ys) =
     (if Index_eq x y then Some ys
      else (case remove_index x ys of None \<Rightarrow> None | Some zs \<Rightarrow> Some (y # zs)))"

text \<open>Modelled from the spec: \<open>Indices::IsPermutationOf\<close> is missing; both sequences hold
  the same indices, each as often as the other.\<close>

fun IsPermutationOf :: "Indices \<Rightarrow> Indices \<Rightarrow> bool" where
  "IsPermutationOf [] ys = (ys = [])"
| "IsPermutationOf (x # xs) ys =
     (case remove_index x ys of None \<Rightarrow> False | Some zs \<Rightarrow> IsPermutationOf xs zs)"

text \<open>Modelled from the spec: \<open>Indices::Shuffle\<close> is missing; every index is looked up in the
  mapping and replaced by its image, indices not in the mapping are kept. The mapping is a
  \<open>std::map<Index, Index>\<close>, whose keys are compared by name.\<close>

type_synonym IndexMapping = "string \<rightharpoonup> Index"

definition Shuffle :: "Indices \<Rightarrow> IndexMapping \<Rightarrow> Indices" where
  "Shuffle idx mapping =
     map (\<lambda>i. case mapping (index_name i) of None \<Rightarrow> i | Some j \<Rightarrow> j) idx"

text \<open>
  The loop \<open>for (i = 0; i < old.Size(); i++) mapping[old[i]] = new[i]\<close> of the
  \<open>SetIndices\<close> overrides. Reading \<open>new[i]\<close> beyond the end is an error.
\<close>

fun generate_mapping :: "Indices \<Rightarrow> Indices \<Rightarrow> IndexMapping \<Rightarrow> error + IndexMapping" where
  "generate_mapping [] new mapping = Inr mapping"
| "generate_mapping (old # olds) [] mapping = Inl OutOfRange"
| "generate_mapping (old # olds) (n # news) mapping =
     generate_mapping olds news (mapping(index_name old \<mapsto> n))"

text \<open>Modelled from the spec: \<open>IndexAssignments\<close> is missing; a mapping from names to
  values which, applied to an index sequence, yields the positional argument vector and
  fails when it does not cover every index name.\<close>

type_synonym IndexAssignments = "string \<rightharpoonup> nat"

definition apply_assignment :: "IndexAssignments \<Rightarrow> Indices \<Rightarrow> error + nat list" where
  "apply_assignment assignment idx =
     (if list_all (\<lambda>i. assignment (index_name i) \<noteq> None) idx
      then Inr (map (\<lambda>i. the (assignment (index_name i))) idx)
      else Inl IncompleteIndexAssignmentException)"

text \<open>
  The loop \<open>for (i = 0; i < args.size(); i++) assignment[indices[i].GetName()] = args[i]\<close>,
  run when both sequences have the same length.
\<close>

fun make_assignment :: "Indices \<Rightarrow> nat list \<Rightarrow> IndexAssignments \<Rightarrow> IndexAssignments" where
  "make_assignment (i # idx) (a # args) assignment =
     make_assignment idx args (assignment(index_name i \<mapsto> a))"
| "make_assignment idx args assignment = assignment"

text \<open>Modelled from the spec: \<open>Permutation\<close> is missing; \<open>Permutation::From(a, b)\<close> is the
  permutation of positions taking the sequence \<open>a\<close> into \<open>b\<close> and requires that they are
  permutations of each other; applied to a sequence it picks the elements in the recorded
  order; its sign is computed by counting inversions.\<close>

type_synonym Permutation = "nat list"

fun position_of :: "Index \<Rightarrow> Indices \<Rightarrow> nat" where
  "position_of x [] = 0"
| "position_of x (y # ys) = (if Index_eq x y then 0 else Suc (position_of x ys))"

definition Permutation_From :: "Indices \<Rightarrow> Indices \<Rightarrow> error + Permutation" where
  "Permutation_From a b =
     (if IsPermutationOf a b then Inr (map (\<lambda>y. position_of y a) b)
      else Inl NotAPermutationException)"

definition Permutation_apply :: "Permutation \<Rightarrow> Indices \<Rightarrow> error + Indices" where
  "Permutation_apply p idx = sequence_err (map (nth_err idx) p)"

fun inversions :: "nat list \<Rightarrow> nat" where
  "inversions [] = 0"
| "inversions (x # xs) = length (filter (\<lambda>y. y < x) xs) + inversions xs"

definition Sign :: "Permutation \<Rightarrow> int" where
  "Sign p = (if even (inversions p) then 1 else - 1)"


section \<open>Double precision arithmetic\<close>

text \<open>
  \<open>EpsilonTensor::GetEpsilonComponents\<close> computes in \<open>double\<close>. A finite double is a
  rational number, and each IEEE 754 operation returns the exact result rounded to the
  nearest number with a 53 bit significand, ties to even. The model is this rounding on
  \<open>rat\<close>; it is exact for results in the normal range of binary64 (magnitude between
  \<open>2^-1022\<close> and \<open>2^1024\<close>), which is where the products below stay for index values
  below \<open>2^31\<close>.
\<close>

definition pow2 :: "int \<Rightarrow> rat" where
  "pow2 e = (if 0 \<le> e then 2 ^ nat e else 1 / 2 ^ nat (- e))"

text \<open>The exponent \<open>e\<close> with \<open>2^e \<le> |x| < 2^(e+1)\<close>, for \<open>x \<noteq> 0\<close>.\<close>

definition double_exponent :: "rat \<Rightarrow> int" where
  "double_exponent x =
     (let p = fst (quotient_of \<bar>x\<bar>); q = snd (quotient_of \<bar>x\<bar>);
          e0 = bitlen p - bitlen q
      in if pow2 e0 \<le> \<bar>x\<bar> then e0 else e0 - 1)"

definition round_half_even :: "rat \<Rightarrow> int" where
  "round_half_even m =
     (let f = \<lfloor>m\<rfloor>; r = m - of_int f
      in if r < 1 / 2 then f else if 1 / 2 < r then f + 1
         else if even f then f else f + 1)"

definition round_to_double :: "rat \<Rightarrow> rat" where
  "round_to_double x =
     (if x = 0 then 0
      else let u = pow2 (double_exponent x - 52)
           in of_int (round_half_even (x / u)) * u)"

definition double_mul :: "rat \<Rightarrow> rat \<Rightarrow> rat" where
  "double_mul x y = round_to_double (x * y)"

definition double_div :: "rat \<Rightarrow> rat \<Rightarrow> rat" where
  "double_div x y = round_to_double (x / y)"

text \<open>
  \<open>static_cast<int>\<close> of an \<open>unsigned\<close> value: values from \<open>2^31\<close> on become negative. The
  same function gives the 32-bit result of an \<open>int\<close> subtraction; where the exact
  difference leaves the range of \<open>int\<close> the C++ result is undefined, and the model takes
  the two's complement value.
\<close>

definition to_int32 :: "int \<Rightarrow> int" where
  "to_int32 x = (x + 2 ^ 31) mod 2 ^ 32 - 2 ^ 31"

text \<open>
  \<open>GetEpsilonComponents\<close>: the outer loop over \<open>p\<close> and the inner loop over \<open>q > p\<close>, with
  \<open>result *= static_cast<double>(static_cast<int>(args[q]) - static_cast<int>(args[p])) / (q - p)\<close>.
  The inner loop receives \<open>args[p]\<close>, the arguments from position \<open>p + 1\<close> on and the
  distance \<open>q - p\<close>.
\<close>

fun epsilon_inner :: "rat \<Rightarrow> nat \<Rightarrow> nat list \<Rightarrow> nat \<Rightarrow> rat" where
  "epsilon_inner result ap [] d = result"
| "epsilon_inner result ap (aq # rest) d =
     epsilon_inner
       (double_mul result
          (double_div (of_int (to_int32 (to_int32 (int aq) - to_int32 (int ap)))) (of_nat d)))
       ap rest (Suc d)"

fun epsilon_outer :: "rat \<Rightarrow> nat list \<Rightarrow> rat" where
  "epsilon_outer result [] = result"
| "epsilon_outer result (ap # rest) = epsilon_outer (epsilon_inner result ap rest 1) rest"

definition GetEpsilonComponents :: "nat list \<Rightarrow> rat" where
  "GetEpsilonComponents args =
     (let result = epsilon_outer 1 args in if result \<noteq> 0 then result else 0)"


section \<open>Tensors (src/lib/tensor/tensor.hpp)\<close>

text \<open>
  \<open>AbstractTensor\<close> carries the header \<open>name\<close>, \<open>printed_text\<close>, \<open>indices\<close> and the tag
  \<open>type\<close>. The constructors of \<open>AbstractTensor\<close> do not initialise the tag (the subclasses
  assign it in their bodies); an unassigned tag is \<open>None\<close>, and every tag predicate
  answers \<open>False\<close> on it.

  The class of an object and its tag are separate: \<open>new AbstractTensor(*this)\<close> copies the
  header, tag included, into an object of the base class, whose virtual functions are the
  base ones. The datatype has one constructor per class, the first being the base class
  itself. The class \<open>Scalar\<close> is declared in a header that is not among the sources; it is
  the type parameter \<open>'s\<close>, a field of characteristic zero.
\<close>

datatype TensorType =
    ADDITION | MULTIPLICATION | SCALED | ZERO
  | SCALAR | NUMERIC
  | EPSILON | GAMMA | EPSILONGAMMA | DELTA
  | SUBSTITUTE
  | CUSTOM

record Header =
  tensor_name :: string
  printed_text :: string
  tensor_indices :: Indices
  tensor_type :: "TensorType option"

datatype 's tensor =
    AbstractTensor Header
  | AddedTensor Header "'s tensor list"
  | MultipliedTensor Header "'s tensor" "'s tensor"
  | ScaledTensor Header "'s tensor" 's
  | ZeroTensor Header
  | SubstituteTensor Header "'s tensor"
  | ScalarTensor Header 's
  | DeltaTensor Header
  | EpsilonTensor Header
  | GammaTensor Header "int \<times> int"
  | EpsilonGammaTensor Header nat nat

fun header :: "'s tensor \<Rightarrow> Header" where
  "header (AbstractTensor h) = h"
| "header (AddedTensor h summands) = h"
| "header (MultipliedTensor h A B) = h"
| "header (ScaledTensor h A c) = h"
| "header (ZeroTensor h) = h"
| "header (SubstituteTensor h A) = h"
| "header (ScalarTensor h v) = h"
| "header (DeltaTensor h) = h"
| "header (EpsilonTensor h) = h"
| "header (GammaTensor h signature) = h"
| "header (EpsilonGammaTensor h numEpsilon numGamma) = h"

fun update_header :: "(Header \<Rightarrow> Header) \<Rightarrow> 's tensor \<Rightarrow> 's tensor" where
  "update_header f (AbstractTensor h) = AbstractTensor (f h)"
| "update_header f (AddedTensor h summands) = AddedTensor (f h) summands"
| "update_header f (MultipliedTensor h A B) = MultipliedTensor (f h) A B"
| "update_header f (ScaledTensor h A c) = ScaledTensor (f h) A c"
| "update_header f (ZeroTensor h) = ZeroTensor (f h)"
| "update_header f (SubstituteTensor h A) = SubstituteTensor (f h) A"
| "update_header f (ScalarTensor h v) = ScalarTensor (f h) v"
| "update_header f (DeltaTensor h) = DeltaTensor (f h)"
| "update_header f (EpsilonTensor h) = EpsilonTensor (f h)"
| "update_header f (GammaTensor h signature) = GammaTensor (f h) signature"
| "update_header f (EpsilonGammaTensor h numEpsilon numGamma) =
     EpsilonGammaTensor (f h) numEpsilon numGamma"

definition GetIndices :: "'s tensor \<Rightarrow> Indices" where
  "GetIndices t = tensor_indices (header t)"

definition GetType :: "'s tensor \<Rightarrow> TensorType option" where
  "GetType t = tensor_type (header t)"

definition IsAddedTensor :: "'s tensor \<Rightarrow> bool" where
  "IsAddedTensor t = (GetType t = Some ADDITION)"

definition IsMultipliedTensor :: "'s tensor \<Rightarrow> bool" where
  "IsMultipliedTensor t = (GetType t = Some MULTIPLICATION)"

definition IsScaledTensor :: "'s tensor \<Rightarrow> bool" where
  "IsScaledTensor t = (GetType t = Some SCALED)"

definition IsZeroTensor :: "'s tensor \<Rightarrow> bool" where
  "IsZeroTensor t = (GetType t = Some ZERO)"

definition IsSubstitute :: "'s tensor \<Rightarrow> bool" where
  "IsSubstitute t = (GetType t = Some SUBSTITUTE)"

definition SetName :: "string \<Rightarrow> 's tensor \<Rightarrow> 's tensor" where
  "SetName n t = update_header (\<lambda>h. h\<lparr>tensor_name := n\<rparr>) t"

definition SetPrintedText :: "string \<Rightarrow> 's tensor \<Rightarrow> 's tensor" where
  "SetPrintedText p t = update_header (\<lambda>h. h\<lparr>printed_text := p\<rparr>) t"

subsection \<open>Constructors\<close>

definition new_header :: "string \<Rightarrow> string \<Rightarrow> Indices \<Rightarrow> TensorType option \<Rightarrow> Header" where
  "new_header n p idx ty =
     \<lparr>tensor_name = n, printed_text = p, tensor_indices = idx, tensor_type = ty\<rparr>"

text \<open>\<open>AbstractTensor(name, printable, indices)\<close>: the tag stays unassigned.\<close>

definition new_AbstractTensor :: "string \<Rightarrow> string \<Rightarrow> Indices \<Rightarrow> 's tensor" where
  "new_AbstractTensor n p idx = AbstractTensor (new_header n p idx None)"

text \<open>\<open>AddedTensor(A, B)\<close> takes the indices of \<open>A\<close>.\<close>

definition new_AddedTensor :: "'s tensor \<Rightarrow> 's tensor \<Rightarrow> 's tensor" where
  "new_AddedTensor A B = AddedTensor (new_header [] [] (GetIndices A) (Some ADDITION)) [A, B]"

text \<open>\<open>AddedTensor(vec, indices)\<close>.\<close>

definition new_AddedTensor_vec :: "'s tensor list \<Rightarrow> Indices \<Rightarrow> 's tensor" where
  "new_AddedTensor_vec vec idx = AddedTensor (new_header [] [] idx (Some ADDITION)) vec"

definition new_MultipliedTensor :: "'s tensor \<Rightarrow> 's tensor \<Rightarrow> 's tensor" where
  "new_MultipliedTensor A B =
     MultipliedTensor
       (new_header [] [] (Contract (GetIndices A) (GetIndices B)) (Some MULTIPLICATION)) A B"

definition new_ScaledTensor :: "'s tensor \<Rightarrow> 's \<Rightarrow> 's tensor" where
  "new_ScaledTensor A c = ScaledTensor (new_header [] [] (GetIndices A) (Some SCALED)) A c"

definition new_ZeroTensor :: "'s tensor" where
  "new_ZeroTensor = ZeroTensor (new_header ''0'' ''0'' [] (Some ZERO))"

text \<open>The constructor of \<open>SubstituteTensor\<close> throws when the indices are no permutation of
  the indices of \<open>A\<close>.\<close>

definition new_SubstituteTensor :: "'s tensor \<Rightarrow> Indices \<Rightarrow> error + 's tensor" where
  "new_SubstituteTensor A idx =
     (if \<not> IsPermutationOf idx (GetIndices A) then Inl NotAPermutationException
      else Inr (SubstituteTensor (new_header [] [] idx (Some SUBSTITUTE)) A))"

text \<open>\<open>ScalarTensor(value)\<close> runs the default constructor of the base class and assigns no
  tag; \<open>ScalarTensor(name, printed_text, value)\<close> assigns \<open>SCALAR\<close>.\<close>

definition new_ScalarTensor :: "'s \<Rightarrow> 's tensor" where
  "new_ScalarTensor v = ScalarTensor (new_header [] [] [] None) v"

definition new_ScalarTensor_named :: "string \<Rightarrow> string \<Rightarrow> 's \<Rightarrow> 's tensor" where
  "new_ScalarTensor_named n p v = ScalarTensor (new_header n p [] (Some SCALAR)) v"

definition new_DeltaTensor :: "Indices \<Rightarrow> error + 's tensor" where
  "new_DeltaTensor idx =
     (case idx of
        [i0, i1] \<Rightarrow>
          Inr (DeltaTensor (new_header [] []
                 [i0\<lparr>contravariant := True\<rparr>, i1\<lparr>contravariant := False\<rparr>] (Some DELTA)))
      | _ \<Rightarrow> Inl AssertionFailure)"

text \<open>The assertion of \<open>EpsilonTensor\<close> compares unsigned values.\<close>

definition new_EpsilonTensor :: "Indices \<Rightarrow> error + 's tensor" where
  "new_EpsilonTensor idx =
     (case idx of
        [] \<Rightarrow> Inl OutOfRange
      | i0 # _ \<Rightarrow>
          if (int (range_to (index_range i0)) + 1 - int (range_from (index_range i0))) mod 2 ^ 32
               = int (length idx)
          then Inr (EpsilonTensor (new_header ''epsilon'' (CHR 0x5C # ''epsilon'') idx (Some EPSILON)))
          else Inl AssertionFailure)"

definition new_GammaTensor :: "Indices \<Rightarrow> int \<Rightarrow> int \<Rightarrow> error + 's tensor" where
  "new_GammaTensor idx p q =
     (if length idx = 2
      then Inr (GammaTensor (new_header ''gamma'' (CHR 0x5C # ''gamma'') idx (Some GAMMA)) (p, q))
      else Inl AssertionFailure)"

definition new_EpsilonGammaTensor :: "nat \<Rightarrow> nat \<Rightarrow> Indices \<Rightarrow> error + 's tensor" where
  "new_EpsilonGammaTensor numEpsilon numGamma idx =
     (if (numEpsilon * 3 + numGamma * 2) mod 2 ^ 32 = length idx
      then Inr (EpsilonGammaTensor (new_header [] [] idx (Some EPSILONGAMMA)) numEpsilon numGamma)
      else Inl AssertionFailure)"

subsection \<open>Clone\<close>

text \<open>
  \<open>ZeroTensor\<close> does not override \<open>Clone\<close>: its clone is an object of the base class with
  the same header. The clones of sums, products, scaled and substituted tensors are built
  through the constructors, which reset the name and recompute the indices.
\<close>

fun Clone :: "'s tensor \<Rightarrow> error + 's tensor" where
  "Clone (AbstractTensor h) = Inr (AbstractTensor h)"
| "Clone (AddedTensor h summands) =
     (case sequence_err (map Clone summands) of
        Inl e \<Rightarrow> Inl e
      | Inr newSummands \<Rightarrow> Inr (new_AddedTensor_vec newSummands (tensor_indices h)))"
| "Clone (MultipliedTensor h A B) =
     (case Clone A of
        Inl e \<Rightarrow> Inl e
      | Inr A' \<Rightarrow> (case Clone B of Inl e \<Rightarrow> Inl e | Inr B' \<Rightarrow> Inr (new_MultipliedTensor A' B')))"
| "Clone (ScaledTensor h A c) =
     (case Clone A of Inl e \<Rightarrow> Inl e | Inr A' \<Rightarrow> Inr (new_ScaledTensor A' c))"
| "Clone (ZeroTensor h) = Inr (AbstractTensor h)"
| "Clone (SubstituteTensor h A) =
     (case Clone A of Inl e \<Rightarrow> Inl e | Inr A' \<Rightarrow> new_SubstituteTensor A' (tensor_indices h))"
| "Clone (ScalarTensor h v) = Inr (ScalarTensor h v)"
| "Clone (DeltaTensor h) = Inr (DeltaTensor h)"
| "Clone (EpsilonTensor h) = Inr (EpsilonTensor h)"
| "Clone (GammaTensor h signature) = Inr (GammaTensor h signature)"
| "Clone (EpsilonGammaTensor h numEpsilon numGamma) =
     Inr (EpsilonGammaTensor h numEpsilon numGamma)"


subsection \<open>Evaluate\<close>

fun add_results :: "'s::plus \<Rightarrow> (error + 's) list \<Rightarrow> error + 's" where
  "add_results result [] = Inr result"
| "add_results result (Inl e # rs) = Inl e"
| "add_results result (Inr v # rs) = add_results (result + v) rs"

definition mul_results :: "error + 's::times \<Rightarrow> error + 's \<Rightarrow> error + 's" where
  "mul_results ra rb =
     (case ra of
        Inl e \<Rightarrow> Inl e
      | Inr x \<Rightarrow> (case rb of Inl e \<Rightarrow> Inl e | Inr y \<Rightarrow> Inr (x * y)))"

text \<open>\<open>EpsilonGammaTensor::Partial(args, {lo, hi})\<close> reads the positions \<open>lo..hi\<close>.\<close>

definition Partial_args :: "nat list \<Rightarrow> nat \<Rightarrow> nat \<Rightarrow> error + nat list" where
  "Partial_args args lo hi = sequence_err (map (nth_err args) [lo ..< Suc hi])"

text \<open>
  \<open>GammaTensor::Evaluate\<close>. The test \<open>vec[0] - indices[0].GetRange().GetFrom() <
  signature.first\<close> is evaluated in unsigned arithmetic.
\<close>

definition Gamma_Evaluate :: "Indices \<Rightarrow> int \<times> int \<Rightarrow> nat list \<Rightarrow> error + 's::field_char_0" where
  "Gamma_Evaluate idx signature vec =
     (if length vec \<noteq> 2 then Inl IncompleteIndexAssignmentException
      else if vec ! 0 = vec ! 1 then
        (case idx of
           [] \<Rightarrow> Inl OutOfRange
         | i0 # _ \<Rightarrow>
             if (int (vec ! 0) - int (range_from (index_range i0))) mod 2 ^ 32
                  < fst signature mod 2 ^ 32
             then Inr (- 1) else Inr 1)
      else Inr 0)"

text \<open>
  The two loops of \<open>EpsilonGammaTensor::Evaluate\<close>. Each returns whether the function
  returned from inside the loop, the result so far and the position reached.
\<close>

fun EpsilonGamma_epsilons ::
  "nat \<Rightarrow> 's::field_char_0 \<Rightarrow> nat \<Rightarrow> nat list \<Rightarrow> error + (bool \<times> 's \<times> nat)" where
  "EpsilonGamma_epsilons 0 result pos args = Inr (False, result, pos)"
| "EpsilonGamma_epsilons (Suc n) result pos args =
     (case Partial_args args pos (pos + 2) of
        Inl e \<Rightarrow> Inl e
      | Inr partialArgs \<Rightarrow>
          (let result' = result * of_rat (GetEpsilonComponents partialArgs)
           in if result' = 0 then Inr (True, result', pos)
              else EpsilonGamma_epsilons n result' (pos + 3) args))"

fun EpsilonGamma_gammas ::
  "nat \<Rightarrow> 's::field_char_0 \<Rightarrow> nat \<Rightarrow> Indices \<Rightarrow> nat list \<Rightarrow> error + (bool \<times> 's \<times> nat)" where
  "EpsilonGamma_gammas 0 result pos idx args = Inr (False, result, pos)"
| "EpsilonGamma_gammas (Suc n) result pos idx args =
     (case Partial_args args pos (pos + 1) of
        Inl e \<Rightarrow> Inl e
      | Inr partialArgs \<Rightarrow>
          (if length (Partial idx pos (pos + 1)) \<noteq> 2 then Inl AssertionFailure
           else (case Gamma_Evaluate (Partial idx pos (pos + 1)) (0, 3) partialArgs of
                   Inl e \<Rightarrow> Inl e
                 | Inr g \<Rightarrow>
                     (let result' = result * g
                      in if result' = 0 then Inr (True, result', pos)
                         else EpsilonGamma_gammas n result' (pos + 2) idx args))))"

definition EpsilonGamma_Evaluate ::
  "Indices \<Rightarrow> nat \<Rightarrow> nat \<Rightarrow> nat list \<Rightarrow> error + 's::field_char_0" where
  "EpsilonGamma_Evaluate idx numEpsilon numGamma args =
     (case EpsilonGamma_epsilons numEpsilon 1 0 args of
        Inl e \<Rightarrow> Inl e
      | Inr (returned, result, pos) \<Rightarrow>
          if returned then Inr result
          else (case EpsilonGamma_gammas numGamma result pos idx args of
                  Inl e \<Rightarrow> Inl e
                | Inr (returned', result', pos') \<Rightarrow> Inr result'))"

text \<open>
  The loop of \<open>MultipliedTensor::Evaluate\<close> over the declared indices, which copies the
  argument of every declared index that the factor has into the factor's assignment.
\<close>

fun route_assignment ::
  "Indices \<Rightarrow> nat list \<Rightarrow> Indices \<Rightarrow> IndexAssignments \<Rightarrow> IndexAssignments" where
  "route_assignment (index # idx) (a # args) indicesA assignment =
     route_assignment idx args indicesA
       (if ContainsIndex indicesA index then assignment(index_name index \<mapsto> a) else assignment)"
| "route_assignment idx args indicesA assignment = assignment"

text \<open>
  \<open>Evaluate\<close> is virtual; \<open>operator()(const IndexAssignments&)\<close> applies the assignment to
  the tensor's own indices and evaluates at the resulting vector. In a product the two
  factors are evaluated left to right. A summand or a term that raises ends the loop with
  that error.
\<close>

fun Evaluate :: "'s::field_char_0 tensor \<Rightarrow> nat list \<Rightarrow> error + 's" where
  "Evaluate (AbstractTensor h) args = Inr 0"
| "Evaluate (AddedTensor h summands) args =
     (if length args \<noteq> length (tensor_indices h) then Inl IncompleteIndexAssignmentException
      else
        (let assignment = make_assignment (tensor_indices h) args Map.empty
         in add_results 0
              (map (\<lambda>t. case apply_assignment assignment (GetIndices t) of
                           Inl e \<Rightarrow> Inl e
                         | Inr r \<Rightarrow> Evaluate t r) summands)))"
| "Evaluate (MultipliedTensor h A B) args =
     (if length args \<noteq> length (tensor_indices h) then Inl IncompleteIndexAssignmentException
      else
        (let contracted = filter (\<lambda>index. \<not> ContainsIndex (tensor_indices h) index) (GetIndices A);
             combinations = GetAllIndexCombinations contracted;
             containsContractions = (0 < length combinations);
             contractedArgs = (if containsContractions then combinations else combinations @ [[0]])
         in add_results 0
              (map (\<lambda>args'.
                      (let start = (if containsContractions
                                    then make_assignment contracted args' Map.empty
                                    else Map.empty);
                           assignment1 = route_assignment (tensor_indices h) args (GetIndices A) start;
                           assignment2 = route_assignment (tensor_indices h) args (GetIndices B) start
                       in mul_results
                            (case apply_assignment assignment1 (GetIndices A) of
                               Inl e \<Rightarrow> Inl e
                             | Inr r \<Rightarrow> Evaluate A r)
                            (case apply_assignment assignment2 (GetIndices B) of
                               Inl e \<Rightarrow> Inl e
                             | Inr r \<Rightarrow> Evaluate B r)))
                   contractedArgs)))"
| "Evaluate (ScaledTensor h A c) args =
     (case Evaluate A args of Inl e \<Rightarrow> Inl e | Inr v \<Rightarrow> Inr (v * c))"
| "Evaluate (ZeroTensor h) args = Inr 0"
| "Evaluate (SubstituteTensor h A) args =
     (if length args \<noteq> length (tensor_indices h) then Inl IncompleteIndexAssignmentException
      else
        (case apply_assignment (make_assignment (tensor_indices h) args Map.empty) (GetIndices A) of
           Inl e \<Rightarrow> Inl e
         | Inr r \<Rightarrow> Evaluate A r))"
| "Evaluate (ScalarTensor h v) args = Inr v"
| "Evaluate (DeltaTensor h) args =
     (if length args \<noteq> 2 then Inl AssertionFailure
      else Inr (if args ! 0 = args ! 1 then 1 else 0))"
| "Evaluate (EpsilonTensor h) args = Inr (of_rat (GetEpsilonComponents args))"
| "Evaluate (GammaTensor h signature) args = Gamma_Evaluate (tensor_indices h) signature args"
| "Evaluate (EpsilonGammaTensor h numEpsilon numGamma) args =
     EpsilonGamma_Evaluate (tensor_indices h) numEpsilon numGamma args"

text \<open>\<open>operator()(const IndexAssignments&)\<close>.\<close>

definition Evaluate_assignment ::
  "'s::field_char_0 tensor \<Rightarrow> IndexAssignments \<Rightarrow> error + 's" where
  "Evaluate_assignment t assignment =
     (case apply_assignment assignment (GetIndices t) of
        Inl e \<Rightarrow> Inl e
      | Inr r \<Rightarrow> Evaluate t r)"

subsection \<open>IsEqual\<close>

fun IsEqual_loop ::
  "'s::field_char_0 tensor \<Rightarrow> 's tensor \<Rightarrow> nat list list \<Rightarrow> error + bool" where
  "IsEqual_loop this other [] = Inr True"
| "IsEqual_loop this other (combination # combinations) =
     (case Evaluate this combination of
        Inl e \<Rightarrow> Inl e
      | Inr x \<Rightarrow>
          (case Evaluate other combination of
             Inl e \<Rightarrow> Inl e
           | Inr y \<Rightarrow> if x \<noteq> y then Inr False else IsEqual_loop this other combinations))"

definition IsEqual :: "'s::field_char_0 tensor \<Rightarrow> 's tensor \<Rightarrow> error + bool" where
  "IsEqual this other =
     (if \<not> Indices_eq (GetIndices this) (GetIndices other) then Inr False
      else IsEqual_loop this other (GetAllIndexCombinations (GetIndices this)))"


subsection \<open>SetIndices\<close>

text \<open>
  \<open>ScaledTensor::SetIndices\<close> sets the indices of a clone of its child, so the recursion
  is not structural: it terminates because a clone has the size of its original.
\<close>

lemma sequence_err_size:
  assumes "sequence_err (map f xs) = Inr ys"
    and "\<And>x y. x \<in> set xs \<Longrightarrow> f x = Inr y \<Longrightarrow> size y = size x"
  shows "size_list size ys = size_list size xs"
  using assms
proof (induction xs arbitrary: ys)
  case Nil
  then show ?case by auto
next
  case (Cons x xs)
  then show ?case
    by (cases "f x"; cases "sequence_err (map f xs)") auto
qed

lemma Clone_size: "Clone t = Inr t' \<Longrightarrow> size t' = size t"
proof (induction t arbitrary: t' rule: Clone.induct)
  case (2 h summands)
  then show ?case
    by (auto split: sum.splits simp: new_AddedTensor_vec_def dest!: sequence_err_size)
qed (auto split: sum.splits if_splits
      simp: new_MultipliedTensor_def new_ScaledTensor_def new_SubstituteTensor_def)

function SetIndices :: "'s tensor \<Rightarrow> Indices \<Rightarrow> error + 's tensor" where
  "SetIndices (AbstractTensor h) newIndices = Inr (AbstractTensor (h\<lparr>tensor_indices := newIndices\<rparr>))"
| "SetIndices (AddedTensor h summands) newIndices =
     (case generate_mapping (tensor_indices h) newIndices Map.empty of
        Inl e \<Rightarrow> Inl e
      | Inr mapping \<Rightarrow>
          (case sequence_err
                  (map (\<lambda>t. SetIndices t (Shuffle (GetIndices t) mapping)) summands) of
             Inl e \<Rightarrow> Inl e
           | Inr summands' \<Rightarrow> Inr (AddedTensor (h\<lparr>tensor_indices := newIndices\<rparr>) summands')))"
| "SetIndices (MultipliedTensor h A B) newIndices =
     (case generate_mapping (tensor_indices h) newIndices Map.empty of
        Inl e \<Rightarrow> Inl e
      | Inr mapping \<Rightarrow>
          (case SetIndices A (Shuffle (GetIndices A) mapping) of
             Inl e \<Rightarrow> Inl e
           | Inr A' \<Rightarrow>
               (case SetIndices B (Shuffle (GetIndices B) mapping) of
                  Inl e \<Rightarrow> Inl e
                | Inr B' \<Rightarrow> Inr (MultipliedTensor (h\<lparr>tensor_indices := newIndices\<rparr>) A' B'))))"
| "SetIndices (ScaledTensor h A c) newIndices =
     (case Clone A of
        Inl e \<Rightarrow> Inl e
      | Inr B \<Rightarrow>
          (case SetIndices B newIndices of
             Inl e \<Rightarrow> Inl e
           | Inr B' \<Rightarrow> Inr (ScaledTensor (h\<lparr>tensor_indices := newIndices\<rparr>) B' c)))"
| "SetIndices (ZeroTensor h) newIndices = Inr (ZeroTensor (h\<lparr>tensor_indices := newIndices\<rparr>))"
| "SetIndices (SubstituteTensor h A) newIndices =
     (case Permutation_From (tensor_indices h) (GetIndices A) of
        Inl e \<Rightarrow> Inl e
      | Inr permutationA \<Rightarrow>
          (case Permutation_apply permutationA newIndices of
             Inl e \<Rightarrow> Inl e
           | Inr permuted \<Rightarrow>
               (case SetIndices A permuted of
                  Inl e \<Rightarrow> Inl e
                | Inr A' \<Rightarrow> Inr (SubstituteTensor (h\<lparr>tensor_indices := newIndices\<rparr>) A'))))"
| "SetIndices (ScalarTensor h v) newIndices = Inr (ScalarTensor (h\<lparr>tensor_indices := newIndices\<rparr>) v)"
| "SetIndices (DeltaTensor h) newIndices = Inr (DeltaTensor (h\<lparr>tensor_indices := newIndices\<rparr>))"
| "SetIndices (EpsilonTensor h) newIndices = Inr (EpsilonTensor (h\<lparr>tensor_indices := newIndices\<rparr>))"
| "SetIndices (GammaTensor h signature) newIndices =
     Inr (GammaTensor (h\<lparr>tensor_indices := newIndices\<rparr>) signature)"
| "SetIndices (EpsilonGammaTensor h numEpsilon numGamma) newIndices =
     Inr (EpsilonGammaTensor (h\<lparr>tensor_indices := newIndices\<rparr>) numEpsilon numGamma)"
  by pat_completeness auto
termination
proof (relation "measure (\<lambda>(t, newIndices). size t)")
  show "wf (measure (\<lambda>(t :: 's tensor, newIndices :: Indices). size t))" by simp
next
  fix h :: Header and summands :: "'s tensor list" and t :: "'s tensor"
    and newIndices :: Indices and mapping :: IndexMapping
  assume "t \<in> set summands"
  then have "size t < Suc (size_list size summands)"
    by (simp add: size_list_estimation' less_Suc_eq_le)
  then show "((t, Shuffle (GetIndices t) mapping), (AddedTensor h summands, newIndices))
      \<in> measure (\<lambda>(t, newIndices). size t)" by simp
next
  fix h :: Header and A B :: "'s tensor" and c :: 's and newIndices :: Indices
  assume "Clone A = Inr B"
  then have "size B = size A" by (rule Clone_size)
  then show "((B, newIndices), (ScaledTensor h A c, newIndices))
      \<in> measure (\<lambda>(t, newIndices). size t)" by simp
qed auto


subsection \<open>Canonicalize\<close>

text \<open>The loop of \<open>EpsilonGammaTensor::Canonicalize\<close> that sorts each pair of gamma
  indices.\<close>

fun collect_gammas :: "nat \<Rightarrow> nat \<Rightarrow> Indices \<Rightarrow> Indices list" where
  "collect_gammas 0 pos idx = []"
| "collect_gammas (Suc n) pos idx = Ordered (Partial idx pos (pos + 1)) # collect_gammas n (pos + 2) idx"

text \<open>
  \<open>std::sort\<close> of the gamma pairs by the name of their first index; the comparison reads
  \<open>a[0]\<close>, which is beyond the end for an empty pair.
\<close>

definition sort_gammas :: "Indices list \<Rightarrow> error + Indices list" where
  "sort_gammas gammas =
     (if 2 \<le> length gammas \<and> list_ex (\<lambda>g. g = []) gammas then Inl OutOfRange
      else Inr (sort_key (\<lambda>g. case g of [] \<Rightarrow> [] | i # _ \<Rightarrow> index_name i) gammas))"

definition EpsilonGamma_Canonicalize ::
  "Header \<Rightarrow> nat \<Rightarrow> nat \<Rightarrow> error + 's::field_char_0 tensor" where
  "EpsilonGamma_Canonicalize h numEpsilon numGamma =
     (let idx = tensor_indices h;
          epsilonIndices = Partial idx 0 2;
          sortedIndices = Ordered epsilonIndices;
          newIndices = (if numEpsilon = 1 then sortedIndices else []);
          pos = (if numEpsilon = 1 then 3 else 0)
      in case (if numEpsilon = 1
               then (case Permutation_From epsilonIndices sortedIndices of
                       Inl e \<Rightarrow> Inl e | Inr p \<Rightarrow> Inr (Sign p))
               else Inr 1) of
           Inl e \<Rightarrow> Inl e
         | Inr sign \<Rightarrow>
            (case sort_gammas (collect_gammas numGamma pos idx) of
               Inl e \<Rightarrow> Inl e
             | Inr gammas \<Rightarrow>
                (case new_EpsilonGammaTensor numEpsilon numGamma (newIndices @ concat gammas) of
                   Inl e \<Rightarrow> Inl e
                 | Inr t \<Rightarrow> if sign < 0 then Inr (new_ScaledTensor t (- 1)) else Inr t)))"

text \<open>
  \<open>Canonicalize\<close> is virtual. \<open>AddedTensor\<close>, \<open>ScaledTensor\<close>, \<open>DeltaTensor\<close>,
  \<open>EpsilonTensor\<close>, \<open>GammaTensor\<close> and \<open>EpsilonGammaTensor\<close> override it. The other classes
  (\<open>ZeroTensor\<close>, \<open>ScalarTensor\<close>, \<open>MultipliedTensor\<close>, \<open>SubstituteTensor\<close>) inherit
  \<open>AbstractTensor::Canonicalize\<close>, which returns \<open>new AbstractTensor(*this)\<close>: an object of
  the base class holding a copy of the header.
\<close>

fun Canonicalize :: "'s::field_char_0 tensor \<Rightarrow> error + 's tensor" where
  "Canonicalize (AbstractTensor h) = Inr (AbstractTensor h)"
| "Canonicalize (AddedTensor h summands) =
     (case sequence_err (map Canonicalize summands) of
        Inl e \<Rightarrow> Inl e
      | Inr newSummands \<Rightarrow> Inr (new_AddedTensor_vec newSummands (tensor_indices h)))"
| "Canonicalize (MultipliedTensor h A B) = Inr (AbstractTensor h)"
| "Canonicalize (ScaledTensor h A c) =
     (case Canonicalize A of
        Inl e \<Rightarrow> Inl e
      | Inr newA \<Rightarrow>
          if IsScaledTensor newA
          then (case newA of
                  ScaledTensor h' y c' \<Rightarrow> Inr (ScaledTensor h' y (c * c'))
                | _ \<Rightarrow> Inl BadCast)
          else Inr (new_ScaledTensor newA c))"
| "Canonicalize (ZeroTensor h) = Inr (AbstractTensor h)"
| "Canonicalize (SubstituteTensor h A) = Inr (AbstractTensor h)"
| "Canonicalize (ScalarTensor h v) = Inr (AbstractTensor h)"
| "Canonicalize (DeltaTensor h) = Clone (DeltaTensor h)"
| "Canonicalize (EpsilonTensor h) =
     (let sortedIndices = Ordered (tensor_indices h)
      in case Permutation_From (tensor_indices h) sortedIndices of
           Inl e \<Rightarrow> Inl e
         | Inr p \<Rightarrow>
             (case new_EpsilonTensor sortedIndices of
                Inl e \<Rightarrow> Inl e
              | Inr t \<Rightarrow> if Sign p < 0 then Inr (new_ScaledTensor t (- 1)) else Inr t))"
| "Canonicalize (GammaTensor h signature) =
     new_GammaTensor (Ordered (tensor_indices h)) (fst signature) (snd signature)"
| "Canonicalize (EpsilonGammaTensor h numEpsilon numGamma) =
     EpsilonGamma_Canonicalize h numEpsilon numGamma"

subsection \<open>ContractionHeuristics\<close>

text \<open>
  Only \<open>DeltaTensor\<close> overrides \<open>ContractionHeuristics\<close>; the base class returns \<open>nullptr\<close>.
  The override runs in \<open>try { ... } catch (...) { return nullptr; }\<close>, which turns every
  exception into \<open>nullptr\<close>.
\<close>

definition catch_all :: "error + 'a \<Rightarrow> error + 'a option" where
  "catch_all r =
     (case r of
        Inr x \<Rightarrow> Inr (Some x)
      | Inl e \<Rightarrow> if is_exception e then Inr None else Inl e)"

fun ContractionHeuristics :: "'s tensor \<Rightarrow> 's tensor \<Rightarrow> error + 's tensor option" where
  "ContractionHeuristics (DeltaTensor h) other =
     catch_all
       (let contracted = Contract (tensor_indices h) (GetIndices other)
        in case Clone other of
             Inl e \<Rightarrow> Inl e
           | Inr clone \<Rightarrow> SetIndices clone contracted)"
| "ContractionHeuristics this other = Inr None"

subsection \<open>The factories Multiply and Add\<close>

text \<open>
  \<open>Multiply(one, second)\<close>. The loop at its head computes \<open>containsContractions\<close>, which
  is not used afterwards.
\<close>

definition Multiply :: "'s tensor \<Rightarrow> 's tensor \<Rightarrow> error + 's tensor" where
  "Multiply one second =
     (case ContractionHeuristics one second of
        Inl e \<Rightarrow> Inl e
      | Inr (Some heuristics) \<Rightarrow> Inr heuristics
      | Inr None \<Rightarrow>
          (case ContractionHeuristics second one of
             Inl e \<Rightarrow> Inl e
           | Inr (Some heuristics) \<Rightarrow> Inr heuristics
           | Inr None \<Rightarrow>
               if IsZeroTensor one \<or> IsZeroTensor second then Inr new_ZeroTensor
               else (case Clone one of
                       Inl e \<Rightarrow> Inl e
                     | Inr a \<Rightarrow>
                         (case Clone second of
                            Inl e \<Rightarrow> Inl e
                          | Inr b \<Rightarrow> Inr (new_MultipliedTensor a b)))))"

text \<open>
  \<open>Multiply(one, c)\<close> for a scalar \<open>c\<close>. The tests \<open>c.ToDouble() == 1\<close> and
  \<open>c.IsNumeric() && c.ToDouble() == 0\<close> are the comparisons with \<open>1\<close> and \<open>0\<close>.
\<close>

function Multiply_scalar :: "'s::field_char_0 tensor \<Rightarrow> 's \<Rightarrow> error + 's tensor" where
  "Multiply_scalar one c =
     (case Clone one of
        Inl e \<Rightarrow> Inl e
      | Inr clone \<Rightarrow>
          if c = 1 then Inr clone
          else if c = 0 then Inr new_ZeroTensor
          else if IsZeroTensor one then Inr clone
          else if IsScaledTensor one then
            (case clone of
               ScaledTensor h A c' \<Rightarrow>
                 (case Clone A of Inl e \<Rightarrow> Inl e | Inr A' \<Rightarrow> Inr (new_ScaledTensor A' (c' * c)))
             | _ \<Rightarrow> Inl BadCast)
          else if IsSubstitute one then
            (case clone of
               SubstituteTensor h A \<Rightarrow>
                 (case Multiply_scalar A c of
                    Inl e \<Rightarrow> Inl e
                  | Inr scaled \<Rightarrow> new_SubstituteTensor scaled (GetIndices one))
             | _ \<Rightarrow> Inl BadCast)
          else Inr (new_ScaledTensor clone c))"
  by pat_completeness auto
termination
proof (relation "measure (\<lambda>(t, c). size t)")
  show "wf (measure (\<lambda>(t :: 's tensor, c :: 's). size t))" by simp
next
  fix one clone A :: "'s tensor" and c :: 's and h :: Header
  assume cl: "Clone one = Inr clone" and sub: "clone = SubstituteTensor h A"
  have "size clone = size one" using cl by (rule Clone_size)
  then have "size (SubstituteTensor h A) = size one" using sub by simp
  then show "((A, c), (one, c)) \<in> measure (\<lambda>(t, c). size t)" by simp
qed

declare Multiply_scalar.simps [simp del]

text \<open>
  \<open>Add(one, other)\<close>. The second test of the source reads
  \<open>second->IsAddedTensor() && !second->IsAddedTensor()\<close>; its branch inserts into \<open>first\<close>
  and returns \<open>second\<close>.
\<close>

definition Add :: "'s tensor \<Rightarrow> 's tensor \<Rightarrow> error + 's tensor" where
  "Add one other =
     (case Clone one of
        Inl e \<Rightarrow> Inl e
      | Inr first \<Rightarrow>
     (case Clone other of
        Inl e \<Rightarrow> Inl e
      | Inr second \<Rightarrow>
          if IsZeroTensor one then Inr second
          else if IsZeroTensor other then Inr first
          else if IsAddedTensor first \<and> \<not> IsAddedTensor second then
            (case first of
               AddedTensor h summands \<Rightarrow> Inr (AddedTensor h (summands @ [second]))
             | _ \<Rightarrow> Inl BadCast)
          else if IsAddedTensor second \<and> \<not> IsAddedTensor second then
            (case first of
               AddedTensor h summands \<Rightarrow> Inr second
             | _ \<Rightarrow> Inl BadCast)
          else if IsAddedTensor first \<and> IsAddedTensor second then
            (case first of
               AddedTensor h summands \<Rightarrow>
                 (case second of
                    AddedTensor h' summands' \<Rightarrow>
                      (case sequence_err (map Clone summands') of
                         Inl e \<Rightarrow> Inl e
                       | Inr clones \<Rightarrow> Inr (AddedTensor h (summands @ clones)))
                  | _ \<Rightarrow> Inl BadCast)
             | _ \<Rightarrow> Inl BadCast)
          else Inr (new_AddedTensor first second)))"


subsection \<open>Serialize and Deserialize\<close>

text \<open>Modelled from the spec: \<open>Indices::Serialize\<close>, \<open>Indices::Deserialize\<close>,
  \<open>Scalar::Serialize\<close> and \<open>Scalar::Deserialize\<close> are missing; each \<open>Serialize\<close> writes one
  self-delimiting block (\<open>IndicesBlock\<close>, \<open>ScalarBlock\<close>) that its \<open>Deserialize\<close> reads back
  unchanged. The rest of the stream is as \<open>tensor.hpp\<close> writes it: the characters of the two
  header strings and their separators, and one item for each binary value (\<open>int\<close>,
  \<open>unsigned\<close>, \<open>size_t\<close>).\<close>

datatype 's item =
    Character char
  | IndicesBlock Indices
  | IntItem int
  | UnsignedItem nat
  | SizeItem nat
  | ScalarBlock 's

fun type_code :: "TensorType \<Rightarrow> int" where
  "type_code ADDITION = 1"
| "type_code MULTIPLICATION = 2"
| "type_code SCALED = 3"
| "type_code ZERO = 4"
| "type_code SCALAR = 101"
| "type_code NUMERIC = 102"
| "type_code EPSILON = 201"
| "type_code GAMMA = 202"
| "type_code EPSILONGAMMA = 203"
| "type_code DELTA = 204"
| "type_code SUBSTITUTE = 301"
| "type_code CUSTOM = - 1"

text \<open>What \<open>AbstractTensor::Serialize\<close> writes before the \<open>switch\<close>.\<close>

definition header_items :: "Header \<Rightarrow> TensorType \<Rightarrow> 's item list" where
  "header_items h ty =
     map Character (tensor_name h) @ [Character CHR '';''] @
     map Character (printed_text h) @ [Character CHR '';''] @
     [IndicesBlock (tensor_indices h), IntItem (type_code ty)]"

text \<open>
  The \<open>switch\<close> casts \<open>this\<close> to the class that the tag names. For an object of another
  class the cast is wrong, except for \<open>ZERO\<close>, whose \<open>DoSerialize\<close> does not touch the
  object; the tags without a case (\<open>EPSILON\<close>, \<open>DELTA\<close>, \<open>NUMERIC\<close>, \<open>CUSTOM\<close>) write nothing.
\<close>

definition payload_of_other_class :: "TensorType \<Rightarrow> error + 's item list" where
  "payload_of_other_class ty =
     (if ty \<in> {ADDITION, MULTIPLICATION, SCALED, SUBSTITUTE, SCALAR, EPSILONGAMMA, GAMMA}
      then Inl BadCast else Inr [])"

definition with_header :: "Header \<Rightarrow> TensorType \<Rightarrow> error + 's item list \<Rightarrow> error + 's item list" where
  "with_header h ty payload =
     (case payload of Inl e \<Rightarrow> Inl e | Inr items \<Rightarrow> Inr (header_items h ty @ items))"

fun Serialize :: "'s tensor \<Rightarrow> error + 's item list" where
  "Serialize (AddedTensor h summands) =
     (case tensor_type h of
        None \<Rightarrow> Inl IndeterminateValue
      | Some ty \<Rightarrow>
          with_header h ty
            (if ty = ADDITION
             then (case sequence_err (map Serialize summands) of
                     Inl e \<Rightarrow> Inl e
                   | Inr blocks \<Rightarrow> Inr (SizeItem (length summands) # concat blocks))
             else payload_of_other_class ty))"
| "Serialize (MultipliedTensor h A B) =
     (case tensor_type h of
        None \<Rightarrow> Inl IndeterminateValue
      | Some ty \<Rightarrow>
          with_header h ty
            (if ty = MULTIPLICATION
             then (case Serialize A of
                     Inl e \<Rightarrow> Inl e
                   | Inr a \<Rightarrow> (case Serialize B of Inl e \<Rightarrow> Inl e | Inr b \<Rightarrow> Inr (a @ b)))
             else payload_of_other_class ty))"
| "Serialize (ScaledTensor h A c) =
     (case tensor_type h of
        None \<Rightarrow> Inl IndeterminateValue
      | Some ty \<Rightarrow>
          with_header h ty
            (if ty = SCALED
             then (case Serialize A of Inl e \<Rightarrow> Inl e | Inr a \<Rightarrow> Inr (ScalarBlock c # a))
             else payload_of_other_class ty))"
| "Serialize (SubstituteTensor h A) =
     (case tensor_type h of
        None \<Rightarrow> Inl IndeterminateValue
      | Some ty \<Rightarrow>
          with_header h ty
            (if ty = SUBSTITUTE then Serialize A else payload_of_other_class ty))"
| "Serialize (ScalarTensor h v) =
     (case tensor_type h of
        None \<Rightarrow> Inl IndeterminateValue
      | Some ty \<Rightarrow>
          with_header h ty
            (if ty = SCALAR then Inr [ScalarBlock v] else payload_of_other_class ty))"
| "Serialize (GammaTensor h signature) =
     (case tensor_type h of
        None \<Rightarrow> Inl IndeterminateValue
      | Some ty \<Rightarrow>
          with_header h ty
            (if ty = GAMMA then Inr [IntItem (fst signature), IntItem (snd signature)]
             else payload_of_other_class ty))"
| "Serialize (EpsilonGammaTensor h numEpsilon numGamma) =
     (case tensor_type h of
        None \<Rightarrow> Inl IndeterminateValue
      | Some ty \<Rightarrow>
          with_header h ty
            (if ty = EPSILONGAMMA then Inr [UnsignedItem numEpsilon, UnsignedItem numGamma]
             else payload_of_other_class ty))"
| "Serialize t =
     (case tensor_type (header t) of
        None \<Rightarrow> Inl IndeterminateValue
      | Some ty \<Rightarrow> with_header (header t) ty (payload_of_other_class ty))"

text \<open>
  \<open>std::getline(is, name, ';')\<close>: the characters up to the next separator, which is
  consumed. The source does not test the state of the stream; where the next item is not
  the expected one the model answers \<open>WrongFormatException\<close>.
\<close>

fun getline :: "'s item list \<Rightarrow> error + (string \<times> 's item list)" where
  "getline [] = Inl WrongFormatException"
| "getline (Character c # rest) =
     (if c = CHR '';'' then Inr ([], rest)
      else (case getline rest of
              Inl e \<Rightarrow> Inl e
            | Inr (line, rest') \<Rightarrow> Inr (c # line, rest')))"
| "getline (x # rest) = Inl WrongFormatException"

text \<open>
  \<open>Deserialize\<close> recurses on what is left of the stream. The recursion is bounded by a
  counter that the entry point sets to the length of the stream (every call reads at
  least the two separators before it recurses); \<open>None\<close> says that the counter ran out.
  Every child is read as \<open>AbstractTensor::Deserialize(is)->Clone()\<close>. Where
  \<open>Scalar::Deserialize\<close> finds no scalar it returns \<open>nullptr\<close>, \<open>DoDeserialize\<close> passes the
  \<open>nullptr\<close> on and \<open>Deserialize\<close> calls \<open>SetName\<close> through it.
\<close>

definition finish :: "string \<Rightarrow> string \<Rightarrow> error + 's tensor \<Rightarrow> 's item list
    \<Rightarrow> (error + ('s tensor \<times> 's item list)) option" where
  "finish n p result rest =
     (case result of
        Inl e \<Rightarrow> Some (Inl e)
      | Inr t \<Rightarrow> Some (Inr (SetPrintedText p (SetName n t), rest)))"

fun Deserialize_bounded :: "nat \<Rightarrow> 's item list \<Rightarrow> (error + ('s tensor \<times> 's item list)) option"
  and Deserialize_children ::
    "nat \<Rightarrow> nat \<Rightarrow> 's item list \<Rightarrow> (error + ('s tensor list \<times> 's item list)) option" where
  "Deserialize_bounded 0 stream = None"
| "Deserialize_bounded (Suc n) stream =
     (case getline stream of
        Inl e \<Rightarrow> Some (Inl e)
      | Inr (name, s1) \<Rightarrow>
     (case getline s1 of
        Inl e \<Rightarrow> Some (Inl e)
      | Inr (printed, s2) \<Rightarrow>
     (case s2 of
        IndicesBlock idx # IntItem typeC # s3 \<Rightarrow>
          if typeC = type_code ADDITION then
            (case s3 of
               SizeItem count # s4 \<Rightarrow>
                 (case Deserialize_children n count s4 of
                    None \<Rightarrow> None
                  | Some (Inl e) \<Rightarrow> Some (Inl e)
                  | Some (Inr (summands, s5)) \<Rightarrow>
                      finish name printed (Inr (new_AddedTensor_vec summands idx)) s5)
             | _ \<Rightarrow> Some (Inl WrongFormatException))
          else if typeC = type_code MULTIPLICATION then
            (case Deserialize_children n 2 s3 of
               None \<Rightarrow> None
             | Some (Inl e) \<Rightarrow> Some (Inl e)
             | Some (Inr (children, s4)) \<Rightarrow>
                 finish name printed (Inr (new_MultipliedTensor (children ! 0) (children ! 1))) s4)
          else if typeC = type_code SCALED then
            (case s3 of
               ScalarBlock c # s4 \<Rightarrow>
                 (case Deserialize_children n 1 s4 of
                    None \<Rightarrow> None
                  | Some (Inl e) \<Rightarrow> Some (Inl e)
                  | Some (Inr (children, s5)) \<Rightarrow>
                      finish name printed (Inr (new_ScaledTensor (children ! 0) c)) s5)
             | _ \<Rightarrow> Some (Inl NullPointer))
          else if typeC = type_code SCALAR then
            (case s3 of
               ScalarBlock v # s4 \<Rightarrow> finish name printed (Inr (new_ScalarTensor v)) s4
             | _ \<Rightarrow> Some (Inl NullPointer))
          else if typeC = type_code GAMMA then
            (case s3 of
               IntItem p # IntItem q # s4 \<Rightarrow> finish name printed (new_GammaTensor idx p q) s4
             | _ \<Rightarrow> Some (Inl WrongFormatException))
          else if typeC = type_code EPSILONGAMMA then
            (case s3 of
               UnsignedItem numEpsilon # UnsignedItem numGamma # s4 \<Rightarrow>
                 finish name printed (new_EpsilonGammaTensor numEpsilon numGamma idx) s4
             | _ \<Rightarrow> Some (Inl WrongFormatException))
          else if typeC = type_code SUBSTITUTE then
            (case Deserialize_children n 1 s3 of
               None \<Rightarrow> None
             | Some (Inl e) \<Rightarrow> Some (Inl e)
             | Some (Inr (children, s4)) \<Rightarrow>
                 finish name printed (new_SubstituteTensor (children ! 0) idx) s4)
          else if typeC = type_code ZERO then
            finish name printed (Inr new_ZeroTensor) s3
          else
            finish name printed (Inr (new_AbstractTensor name printed idx)) s3
      | _ \<Rightarrow> Some (Inl WrongFormatException))))"
| "Deserialize_children n 0 stream = Some (Inr ([], stream))"
| "Deserialize_children n (Suc k) stream =
     (case Deserialize_bounded n stream of
        None \<Rightarrow> None
      | Some (Inl e) \<Rightarrow> Some (Inl e)
      | Some (Inr (t, s1)) \<Rightarrow>
          (case Clone t of
             Inl e \<Rightarrow> Some (Inl e)
           | Inr child \<Rightarrow>
               (case Deserialize_children n k s1 of
                  None \<Rightarrow> None
                | Some (Inl e) \<Rightarrow> Some (Inl e)
                | Some (Inr (children, s2)) \<Rightarrow> Some (Inr (child # children, s2)))))"

definition Deserialize :: "'s item list \<Rightarrow> (error + 's tensor) option" where
  "Deserialize stream =
     (case Deserialize_bounded (length stream) stream of
        None \<Rightarrow> None
      | Some (Inl e) \<Rightarrow> Some (Inl e)
      | Some (Inr (t, rest)) \<Rightarrow> Some (Inr t))"

text \<open>\<open>Deserialize(Serialize(T))\<close>.\<close>

definition round_trip :: "'s tensor \<Rightarrow> (error + 's tensor) option" where
  "round_trip t = (case Serialize t of Inl e \<Rightarrow> Some (Inl e) | Inr stream \<Rightarrow> Deserialize stream)"


section \<open>The adapter Tensor: Substitute, SeparateScalefactor and the collection stage of Simplify\<close>

text \<open>
  A \<open>Tensor\<close> owns one \<open>AbstractTensor\<close>; copying a \<open>Tensor\<close> clones it, \<open>operator+=\<close> is
  \<open>AbstractTensor::Add\<close> and \<open>scalar * tensor\<close> is \<open>AbstractTensor::Multiply(tensor, scalar)\<close>.
  The recursions below run on clones and terminate because a clone has the size of its
  original.
\<close>

function Tensor_Substitute :: "'s::field_char_0 tensor \<Rightarrow> Indices \<Rightarrow> error + 's tensor"
  and Substitute_summands :: "'s tensor \<Rightarrow> 's tensor list \<Rightarrow> Indices \<Rightarrow> error + 's tensor" where
  "Tensor_Substitute tensor idx =
     (if IsAddedTensor tensor then
        (case tensor of
           AddedTensor h summands \<Rightarrow> Substitute_summands new_ZeroTensor summands idx
         | _ \<Rightarrow> Inl BadCast)
      else if IsScaledTensor tensor then
        (case tensor of
           ScaledTensor h A c \<Rightarrow>
             (case Clone A of
                Inl e \<Rightarrow> Inl e
              | Inr A' \<Rightarrow>
                  (case Tensor_Substitute A' idx of
                     Inl e \<Rightarrow> Inl e
                   | Inr substituted \<Rightarrow> Multiply_scalar substituted c))
         | _ \<Rightarrow> Inl BadCast)
      else (case Clone tensor of
              Inl e \<Rightarrow> Inl e
            | Inr clone \<Rightarrow> new_SubstituteTensor clone idx))"
| "Substitute_summands result [] idx = Inr result"
| "Substitute_summands result (s # summands) idx =
     (case Clone s of
        Inl e \<Rightarrow> Inl e
      | Inr s' \<Rightarrow>
          (case Tensor_Substitute s' idx of
             Inl e \<Rightarrow> Inl e
           | Inr substituted \<Rightarrow>
               (case Add result substituted of
                  Inl e \<Rightarrow> Inl e
                | Inr result' \<Rightarrow> Substitute_summands result' summands idx)))"
  by pat_completeness auto
termination
proof (relation "measure (\<lambda>x. case x of
                             Inl (tensor, idx) \<Rightarrow> size tensor
                           | Inr (result, summands, idx) \<Rightarrow> size_list size summands)")
  fix tensor A A' :: "'s tensor" and h :: Header and c :: 's and idx :: Indices
  assume "tensor = ScaledTensor h A c" and "Clone A = Inr A'"
  then show "(Inl (A', idx), Inl (tensor, idx))
      \<in> measure (\<lambda>x. case x of
                       Inl (tensor, idx) \<Rightarrow> size tensor
                     | Inr (result, summands, idx) \<Rightarrow> size_list size summands)"
    using Clone_size[of A A'] by simp
next
  fix s s' :: "'s tensor" and result :: "'s tensor" and summands :: "'s tensor list"
    and idx :: Indices
  assume "Clone s = Inr s'"
  then show "(Inl (s', idx), Inr (result, s # summands, idx))
      \<in> measure (\<lambda>x. case x of
                       Inl (tensor, idx) \<Rightarrow> size tensor
                     | Inr (result, summands, idx) \<Rightarrow> size_list size summands)"
    using Clone_size[of s s'] by simp
qed auto

declare Tensor_Substitute.simps [simp del]

function SeparateScalefactor :: "'s::field_char_0 tensor \<Rightarrow> error + ('s \<times> 's tensor)" where
  "SeparateScalefactor t =
     (if IsScaledTensor t then
        (case t of
           ScaledTensor h A c \<Rightarrow>
             (case Clone A of Inl e \<Rightarrow> Inl e | Inr A' \<Rightarrow> Inr (c, A'))
         | _ \<Rightarrow> Inl BadCast)
      else if IsSubstitute t then
        (case t of
           SubstituteTensor h A \<Rightarrow>
             (case Clone A of
                Inl e \<Rightarrow> Inl e
              | Inr A' \<Rightarrow>
                  (case SeparateScalefactor A' of
                     Inl e \<Rightarrow> Inl e
                   | Inr (scale, rest) \<Rightarrow>
                       (case Tensor_Substitute rest (GetIndices t) of
                          Inl e \<Rightarrow> Inl e
                        | Inr substituted \<Rightarrow> Inr (scale, substituted))))
         | _ \<Rightarrow> Inl BadCast)
      else (case Clone t of Inl e \<Rightarrow> Inl e | Inr copy \<Rightarrow> Inr (1, copy)))"
  by pat_completeness auto
termination
proof (relation "measure size")
  fix t A A' :: "'s tensor" and h :: Header
  assume "t = SubstituteTensor h A" and "Clone A = Inr A'"
  then show "(A', t) \<in> measure size"
    using Clone_size[of A A'] by simp
qed auto

declare SeparateScalefactor.simps [simp del]

text \<open>
  The collection stage of \<open>Tensor::Simplify\<close>, from \<open>// Now start collecting the tensors\<close>
  to the end. Its inputs are the summands and the matrix \<open>M\<close> as \<open>ToRowEchelonForm\<close> of
  the matrix library left it; an entry is a finite double, that is a rational number,
  and the stage only compares entries with \<open>0\<close> and \<open>1\<close> and converts them to scalars.

  The inner loop over the columns \<open>i = k, ..., summands.size() - 1\<close> ends in one of two
  ways: it runs to its end or leaves by \<open>break\<close>, with the scalar, the tensor and \<open>k\<close>; or it
  reaches the branch marked \<open>SOMETHING WENT WRONG\<close>, where \<open>Simplify\<close> executes
  \<open>return Tensor::Zero()\<close>.
\<close>

datatype 's row_result = RowDone 's "'s tensor" nat | SomethingWentWrong

fun collect_row ::
  "rat list \<Rightarrow> 's::field_char_0 tensor list \<Rightarrow> nat list \<Rightarrow> 's \<Rightarrow> 's tensor \<Rightarrow> bool \<Rightarrow> nat
     \<Rightarrow> error + 's row_result" where
  "collect_row row summands [] scalar tensor foundBase k = Inr (RowDone scalar tensor k)"
| "collect_row row summands (i # columns) scalar tensor foundBase k =
     (case nth_err row i of
        Inl e \<Rightarrow> Inl e
      | Inr m \<Rightarrow>
          if m = 0 then collect_row row summands columns scalar tensor foundBase k
          else if m = 1 \<and> \<not> foundBase then
            (case SeparateScalefactor (summands ! i) of
               Inl e \<Rightarrow> Inl e
             | Inr (first, second) \<Rightarrow> collect_row row summands columns first second True (i + 1))
          else if foundBase then
            (case SeparateScalefactor (summands ! i) of
               Inl e \<Rightarrow> Inl e
             | Inr (first, second) \<Rightarrow>
                 collect_row row summands columns (scalar + first * of_rat m) tensor foundBase k)
          else if i = length summands - 1 \<and> \<not> foundBase then Inr (RowDone scalar tensor k)
          else Inr SomethingWentWrong)"

text \<open>\<open>std::find\<close> over \<open>_map_scalars\<close>: the first position holding the scalar.\<close>

fun find_scalar :: "'s \<Rightarrow> 's list \<Rightarrow> nat option" where
  "find_scalar x [] = None"
| "find_scalar x (y # ys) =
     (if y = x then Some 0 else (case find_scalar x ys of None \<Rightarrow> None | Some n \<Rightarrow> Some (Suc n)))"

text \<open>
  The loop over the rows; \<open>None\<close> is the early \<open>return Tensor::Zero()\<close>. \<open>push_back\<close> stores
  a copy of the tensor.
\<close>

fun collect_rows ::
  "rat list list \<Rightarrow> 's::field_char_0 tensor list \<Rightarrow> nat \<Rightarrow> 's list \<Rightarrow> 's tensor list
     \<Rightarrow> error + ('s list \<times> 's tensor list) option" where
  "collect_rows [] summands k map_scalars map_tensors = Inr (Some (map_scalars, map_tensors))"
| "collect_rows (row # rows) summands k map_scalars map_tensors =
     (case collect_row row summands [k ..< length summands] 0 new_ZeroTensor False k of
        Inl e \<Rightarrow> Inl e
      | Inr SomethingWentWrong \<Rightarrow> Inr None
      | Inr (RowDone scalar tensor k') \<Rightarrow>
          (case find_scalar scalar map_scalars of
             None \<Rightarrow>
               (case Clone tensor of
                  Inl e \<Rightarrow> Inl e
                | Inr copy \<Rightarrow>
                    collect_rows rows summands k' (map_scalars @ [scalar]) (map_tensors @ [copy]))
           | Some pos \<Rightarrow>
               (case Add (map_tensors ! pos) tensor of
                  Inl e \<Rightarrow> Inl e
                | Inr merged \<Rightarrow>
                    collect_rows rows summands k' map_scalars (map_tensors[pos := merged]))))"

text \<open>The last loop: \<open>result += _map_scalars[i] * _map_tensors[i]\<close>.\<close>

fun add_terms :: "'s::field_char_0 tensor \<Rightarrow> 's list \<Rightarrow> 's tensor list \<Rightarrow> error + 's tensor" where
  "add_terms result (c # scalars) (t # tensors) =
     (case Multiply_scalar t c of
        Inl e \<Rightarrow> Inl e
      | Inr product \<Rightarrow>
          (case Add result product of
             Inl e \<Rightarrow> Inl e
           | Inr result' \<Rightarrow> add_terms result' scalars tensors))"
| "add_terms result scalars tensors = Inr result"

definition Simplify_collect ::
  "rat list list \<Rightarrow> 's::field_char_0 tensor list \<Rightarrow> error + 's tensor" where
  "Simplify_collect M summands =
     (case collect_rows (take (min (length M) (length summands)) M) summands 0 [] [] of
        Inl e \<Rightarrow> Inl e
      | Inr None \<Rightarrow> Inr new_ZeroTensor
      | Inr (Some (map_scalars, map_tensors)) \<Rightarrow> add_terms new_ZeroTensor map_scalars map_tensors)"


section \<open>Example indices\<close>

text \<open>An index over the spatial range \<open>{1..3}\<close> (the range of \<open>Indices::GetRomanSeries\<close> in
  the source) and one over the spacetime range \<open>{0..3}\<close>, both covariant.\<close>

definition RomanIndex :: "string \<Rightarrow> Index" where
  "RomanIndex n =
     \<lparr>index_name = n, index_range = \<lparr>range_from = 1, range_to = 3\<rparr>, contravariant = False\<rparr>"

definition GreekIndex :: "string \<Rightarrow> Index" where
  "GreekIndex n =
     \<lparr>index_name = n, index_range = \<lparr>range_from = 0, range_to = 3\<rparr>, contravariant = False\<rparr>"

section \<open>Example tensors\<close>

text \<open>
  The atoms used in the concrete statements below, as their constructors build them, with
  rational scalars: spatial metrics \<open>gamma_{ab}\<close>, \<open>gamma_{ba}\<close>, \<open>gamma_{cd}\<close> of signature
  \<open>(0,3)\<close>, the Kronecker delta \<open>delta^a_b\<close>, the Levi-Civita symbols \<open>epsilon_{cbd}\<close> and
  \<open>epsilon_{cad}\<close>, \<open>epsilon_{abc}\<close>, \<open>epsilon_{bac}\<close>, \<open>epsilon_{bca}\<close> on the range \<open>{1..3}\<close>, and the scalar tensor \<open>One()\<close> of the source.
\<close>

definition gamma_header :: "Indices \<Rightarrow> Header" where
  "gamma_header idx = new_header ''gamma'' (CHR 0x5C # ''gamma'') idx (Some GAMMA)"

definition epsilon_header :: "Indices \<Rightarrow> Header" where
  "epsilon_header idx = new_header ''epsilon'' (CHR 0x5C # ''epsilon'') idx (Some EPSILON)"

definition gamma_ab :: "rat tensor" where
  "gamma_ab = GammaTensor (gamma_header [RomanIndex ''a'', RomanIndex ''b'']) (0, 3)"

definition gamma_ba :: "rat tensor" where
  "gamma_ba = GammaTensor (gamma_header [RomanIndex ''b'', RomanIndex ''a'']) (0, 3)"

definition gamma_cd :: "rat tensor" where
  "gamma_cd = GammaTensor (gamma_header [RomanIndex ''c'', RomanIndex ''d'']) (0, 3)"

definition delta_ab :: "rat tensor" where
  "delta_ab =
     DeltaTensor (new_header [] []
       [(RomanIndex ''a'')\<lparr>contravariant := True\<rparr>, RomanIndex ''b''] (Some DELTA))"

definition epsilon_cbd :: "rat tensor" where
  "epsilon_cbd = EpsilonTensor (epsilon_header [RomanIndex ''c'', RomanIndex ''b'', RomanIndex ''d''])"

definition epsilon_cad :: "rat tensor" where
  "epsilon_cad = EpsilonTensor (epsilon_header [RomanIndex ''c'', RomanIndex ''a'', RomanIndex ''d''])"

definition epsilon_abc :: "rat tensor" where
  "epsilon_abc = EpsilonTensor (epsilon_header [RomanIndex ''a'', RomanIndex ''b'', RomanIndex ''c''])"



definition One :: "rat tensor" where
  "One = new_ScalarTensor_named ''1'' ''1'' 1"


section \<open>Properties of fractions\<close>














text \<open>
  \<open>a /= a\<close> on one object: the denominator is multiplied by the numerator that the first
  statement has just assigned. At \<open>65536/256\<close> the numerator becomes \<open>2^24\<close> and the
  denominator \<open>256 * 2^24 = 2^32\<close>, which is \<open>0\<close> in 32 bits. With two distinct objects of
  that value the denominator is \<open>256 * 65536 = 2^24\<close>.
\<close>

lemma Fraction_div_assign_same_object:
  "Fraction_div_assign (\<lambda>_. \<lparr>numerator = 65536, denominator = 256\<rparr>) 0 0 0
     = \<lparr>numerator = 16777216, denominator = 0\<rparr> \<and>
   Fraction_div_assign (\<lambda>_. \<lparr>numerator = 65536, denominator = 256\<rparr>) 0 1 0
     = \<lparr>numerator = 16777216, denominator = 16777216\<rparr>"
  by (simp add: Fraction_div_assign_def Let_def)




section \<open>The Levi-Civita symbol in double precision\<close>

text \<open>
  The scenario S2 of the specification: on the range \<open>{1..3}\<close> every factor is a multiple
  of \<open>1/2\<close>, no rounding occurs and the closed form returns the exact sign.
\<close>

lemma GetEpsilonComponents_S2:
  "GetEpsilonComponents [1, 2, 3] = 1"
  "GetEpsilonComponents [2, 1, 3] = - 1"
  "GetEpsilonComponents [1, 1, 3] = 0"
  "GetEpsilonComponents [3, 1, 2] = 1"
  by code_simp+

text \<open>
  The arguments are \<open>unsigned\<close> and are cast to \<open>int\<close> before they are subtracted: the
  argument \<open>4294967295\<close> counts as \<open>-1\<close>.
\<close>

lemma GetEpsilonComponents_cast:
  "GetEpsilonComponents [0, 4294967295] = - 1"
  by (simp add: GetEpsilonComponents_def to_int32_def double_mul_def double_div_def
      round_to_double_def double_exponent_def round_half_even_def pow2_def Let_def)

text \<open>
  Claim C6 says that the product is exactly \<open>+1\<close> on every even permutation of the index
  range. On the range \<open>{0..5}\<close> the argument vector \<open>(0,1,2,4,5,3)\<close> is an even permutation
  (it has two inversions), and the loop of \<open>GetEpsilonComponents\<close>, which divides and
  multiplies in double precision, returns \<open>1 - 3 * 2^-53\<close>: the quotients by \<open>3\<close> and \<open>5\<close>
  are rounded and the roundings do not cancel.
\<close>

theorem GetEpsilonComponents_rank6_inexact:
  "even (inversions [0, 1, 2, 4, 5, 3]) \<and>
   GetEpsilonComponents [0, 1, 2, 4, 5, 3] = 1 - 3 / 2 ^ 53 \<and>
   GetEpsilonComponents [0, 1, 2, 4, 5, 3] \<noteq> 1"
  by code_simp

section \<open>The factory Add\<close>

lemma sequence_err_Inl:
  assumes "sequence_err (map f xs) = Inl e"
  shows "\<exists>x \<in> set xs. f x = Inl e"
  using assms
proof (induction xs)
  case Nil
  then show ?case by simp
next
  case (Cons x xs)
  then show ?case
    by (cases "f x"; cases "sequence_err (map f xs)") auto
qed

text \<open>A clone fails only when the constructor of \<open>SubstituteTensor\<close> throws.\<close>

lemma Clone_error: "Clone t = Inl e \<Longrightarrow> e = NotAPermutationException"
proof (induction t rule: Clone.induct)
  case (2 h summands)
  then show ?case
    by (auto split: sum.splits dest!: sequence_err_Inl)
qed (auto split: sum.splits if_splits simp: new_SubstituteTensor_def)

text \<open>\<open>Add\<close> contains no test of the indices: on no input does it raise the cannot-add
  error.\<close>

lemma Add_never_CannotAdd: "Add one other \<noteq> Inl CannotAddTensorsException"
proof
  assume a: "Add one other = Inl CannotAddTensorsException"
  have c: "Clone t \<noteq> Inl CannotAddTensorsException" for t :: "'a tensor"
    using Clone_error[of t CannotAddTensorsException] by auto
  have s: "sequence_err (map Clone ts) \<noteq> Inl CannotAddTensorsException" for ts :: "'a tensor list"
    using sequence_err_Inl[of Clone ts CannotAddTensorsException] c by auto
  show False
    using a c[of one] c[of other] s
    by (auto simp: Add_def split: sum.splits if_splits tensor.splits)
qed

text \<open>
  Claim C7 says that \<open>Add\<close> raises the cannot-add error when the index sets of the
  operands are not permutations of each other. The metrics \<open>gamma_{ab}\<close> and \<open>gamma_{cd}\<close>
  share no index and neither is the zero tensor, and \<open>Add\<close> returns the sum node built by
  \<open>AddedTensor(first, second)\<close>.
\<close>

theorem Add_incompatible_indices_returns_sum:
  "\<not> IsPermutationOf (GetIndices gamma_ab) (GetIndices gamma_cd) \<and>
   \<not> IsZeroTensor gamma_ab \<and> \<not> IsZeroTensor gamma_cd \<and>
   Add gamma_ab gamma_cd = Inr (new_AddedTensor gamma_ab gamma_cd)"
  by code_simp

text \<open>
  Claim C8 says that a sum operand absorbs the other operand in either argument order.
  With the sum on the left the new summand is appended to it. With the sum on the right
  the test \<open>second->IsAddedTensor() && !second->IsAddedTensor()\<close> is never true, no later
  test applies either, and \<open>Add\<close> returns a new node with two summands, the second being
  the whole sum.
\<close>

theorem Add_sum_on_the_right_nests:
  "Add (new_AddedTensor gamma_ab gamma_ba) gamma_ab
     = Inr (new_AddedTensor_vec [gamma_ab, gamma_ba, gamma_ab] (GetIndices gamma_ab)) \<and>
   Add gamma_ab (new_AddedTensor gamma_ab gamma_ba)
     = Inr (new_AddedTensor gamma_ab (new_AddedTensor gamma_ab gamma_ba))"
  by code_simp

section \<open>Canonicalize\<close>

text \<open>
  The classes without an override of \<open>Canonicalize\<close> return a copy of their header in an
  object of the base class, which evaluates to zero. For \<open>ZeroTensor\<close> this keeps every
  component; for \<open>ScalarTensor\<close> it loses the value unless that is zero. \<open>DeltaTensor\<close>
  returns its clone.
\<close>

lemma Canonicalize_inherited:
  fixes v :: "'s::field_char_0"
  shows "Canonicalize (ScalarTensor h v) = Inr (AbstractTensor h)"
    and "Canonicalize (ZeroTensor h :: 's tensor) = Inr (AbstractTensor h)"
    and "Evaluate (AbstractTensor h :: 's tensor) args = Inr 0"
    and "Evaluate (ZeroTensor h :: 's tensor) args = Inr 0"
    and "Evaluate (ScalarTensor h v) args = Inr v"
    and "Canonicalize (DeltaTensor h :: 's tensor) = Inr (DeltaTensor h)"
  by simp_all

text \<open>
  Claim C1 says that \<open>Canonicalize\<close> preserves every component and is the identity on
  scalar atoms. \<open>ScalarTensor\<close> inherits \<open>AbstractTensor::Canonicalize\<close>, whose result is an
  object of the base class: the scalar tensor \<open>One()\<close> evaluates to \<open>1\<close>, its canonical
  form to \<open>0\<close>.
\<close>

theorem Canonicalize_ScalarTensor_evaluates_to_zero:
  "Evaluate One [] = Inr 1 \<and>
   Canonicalize One = Inr (AbstractTensor (header One)) \<and>
   Evaluate (AbstractTensor (header One) :: rat tensor) [] = Inr 0"
  by code_simp

section \<open>Contraction with the Kronecker delta\<close>

text \<open>
  Claim C3 says that \<open>Multiply\<close> returns, for \<open>delta^a_b\<close> and a tensor \<open>T\<close> holding \<open>b\<close>, the
  tensor \<open>T\<close> with \<open>a\<close> in the place of \<open>b\<close>. For \<open>T = epsilon_{cbd}\<close> the hook installs the
  contracted index sequence \<open>[a, c, d]\<close> on the clone of \<open>T\<close>, so \<open>a\<close> takes the first
  position instead of the second. At the arguments \<open>(1, 2, 3)\<close> for \<open>[a, c, d]\<close> the result
  evaluates to \<open>1\<close>, while the product node, which sums over \<open>b\<close>, and \<open>epsilon_{cad}\<close> under
  the same assignment both evaluate to \<open>-1\<close>.
\<close>

theorem Multiply_delta_misplaces_index:
  "Multiply delta_ab epsilon_cbd
     = Inr (EpsilonTensor (epsilon_header
              [(RomanIndex ''a'')\<lparr>contravariant := True\<rparr>, RomanIndex ''c'', RomanIndex ''d''])) \<and>
   Evaluate (EpsilonTensor (epsilon_header
              [(RomanIndex ''a'')\<lparr>contravariant := True\<rparr>, RomanIndex ''c'', RomanIndex ''d''])
              :: rat tensor) [1, 2, 3] = Inr 1 \<and>
   Evaluate (new_MultipliedTensor delta_ab epsilon_cbd) [1, 2, 3] = Inr (- 1) \<and>
   Evaluate_assignment epsilon_cad [''a'' \<mapsto> 1, ''c'' \<mapsto> 2, ''d'' \<mapsto> 3] = Inr (- 1)"
  by code_simp

text \<open>
  When the delta shares no index with the other tensor the hook does not yield nothing
  either: the contracted sequence is the concatenation of both index sequences, and the
  clone of \<open>gamma_{cd}\<close> is returned with four indices.
\<close>

lemma Multiply_delta_without_shared_index:
  "Multiply delta_ab gamma_cd
     = Inr (GammaTensor (gamma_header
              [(RomanIndex ''a'')\<lparr>contravariant := True\<rparr>, RomanIndex ''b'',
               RomanIndex ''c'', RomanIndex ''d'']) (0, 3))"
  by code_simp


section \<open>Evaluation of sums and products\<close>

subsection \<open>Assignments built by the loops\<close>

lemma make_assignment_map_of:
  "length idx = length args \<Longrightarrow>
   make_assignment idx args m = m ++ map_of (rev (zip (map index_name idx) args))"
proof (induction idx args m rule: make_assignment.induct)
  case (1 i idx a args assignment)
  then show ?case by (simp add: map_add_upd_left map_add_assoc[symmetric] fun_upd_def[symmetric])
qed simp_all

lemma map_of_rev_distinct:
  "distinct (map fst xs) \<Longrightarrow> map_of (rev xs) = map_of xs"
  by (rule map_of_inject_set[THEN iffD2]) (simp_all add: distinct_rev rev_map[symmetric])

lemma make_assignment_distinct:
  assumes "length idx = length args" "distinct (map index_name idx)"
  shows "make_assignment idx args Map.empty = map_of (zip (map index_name idx) args)"
proof -
  have "distinct (map fst (zip (map index_name idx) args))"
    using assms by (simp add: map_fst_zip)
  then show ?thesis
    using assms(1) by (simp add: make_assignment_map_of map_of_rev_distinct)
qed

lemma add_results_Inr:
  fixes r :: "'s::monoid_add"
  shows "add_results r (map (\<lambda>t. Inr (f t)) ts) = Inr (r + sum_list (map f ts))"
  by (induction ts arbitrary: r) (simp_all add: add.assoc)

lemma add_results_cong_map:
  assumes "\<And>t. t \<in> set ts \<Longrightarrow> g t = Inr (f t)"
  shows "add_results (r :: 's::monoid_add) (map g ts) = Inr (r + sum_list (map f ts))"
proof -
  have e: "map g ts = map (\<lambda>t. Inr (f t)) ts" using assms by simp
  show ?thesis unfolding e by (rule add_results_Inr)
qed



lemma route_assignment_map_of:
  "route_assignment idx args X m =
     m ++ map_of (rev (map (\<lambda>(i, a). (index_name i, a))
                        (filter (\<lambda>(i, a). ContainsIndex X i) (zip idx args))))"
proof (induction idx args X m rule: route_assignment.induct)
  case (1 index idx a args indicesA assignment)
  define M where "M = map_of (rev (map (\<lambda>(i, a). (index_name i, a))
                        (filter (\<lambda>(i, a). ContainsIndex indicesA i) (zip idx args))))"
  show ?case
  proof (cases "ContainsIndex indicesA index")
    case True
    have ih: "route_assignment idx args indicesA (assignment(index_name index \<mapsto> a))
        = assignment(index_name index \<mapsto> a) ++ M"
      using "1.IH" True unfolding M_def by (simp only: if_True)
    have step: "route_assignment (index # idx) (a # args) indicesA assignment
        = route_assignment idx args indicesA (assignment(index_name index \<mapsto> a))"
      using True by (simp only: route_assignment.simps if_True)
    have e: "assignment(index_name index \<mapsto> a) ++ M = assignment ++ ([index_name index \<mapsto> a] ++ M)"
      by (rule ext) (simp add: map_add_def split: option.splits)
    have r: "map_of (rev (map (\<lambda>(i, a). (index_name i, a))
                (filter (\<lambda>(i, a). ContainsIndex indicesA i) (zip (index # idx) (a # args)))))
        = [index_name index \<mapsto> a] ++ M"
      using True unfolding M_def by simp
    show ?thesis unfolding step ih e r ..
  next
    case False
    have ih: "route_assignment idx args indicesA assignment = assignment ++ M"
      using "1.IH" False unfolding M_def by (simp only: if_False)
    have step: "route_assignment (index # idx) (a # args) indicesA assignment
        = route_assignment idx args indicesA assignment"
      using False by (simp only: route_assignment.simps if_False)
    have r: "map_of (rev (map (\<lambda>(i, a). (index_name i, a))
                (filter (\<lambda>(i, a). ContainsIndex indicesA i) (zip (index # idx) (a # args)))))
        = M"
      using False unfolding M_def by simp
    show ?thesis unfolding step ih r ..
  qed
qed simp_all

lemma routed_distinct:
  fixes idx :: Indices and args :: "'b list"
  assumes "distinct (map index_name idx)"
  shows "distinct (map fst (map (\<lambda>(i, a). (index_name i, a))
                      (filter (\<lambda>(i, a). ContainsIndex X i) (zip idx args))))"
proof -
  have m: "map fst (map (\<lambda>(i, a). (index_name i, a)) zs) = map (\<lambda>p. index_name (fst p)) zs"
    for zs :: "(Index \<times> 'b) list"
    by (induction zs) auto
  have "distinct (map (\<lambda>p. index_name (fst p)) (zip idx args))"
    using assms
  proof (induction idx arbitrary: args)
    case Nil
    then show ?case by simp
  next
    case (Cons i idx)
    show ?case
    proof (cases args)
      case Nil
      then show ?thesis by simp
    next
      case (Cons a args')
      have "index_name i \<notin> (\<lambda>p. index_name (fst p)) ` set (zip idx args')"
        using Cons.prems by (auto dest: set_zip_leftD)
      then show ?thesis using Cons Cons.IH[of args'] Cons.prems by simp
    qed
  qed
  then have "distinct (map (\<lambda>p. index_name (fst p))
                  (filter (\<lambda>(i, a). ContainsIndex X i) (zip idx args)))"
    by (rule distinct_map_filter)
  then show ?thesis by (subst m)
qed

lemma route_assignment_distinct:
  assumes "distinct (map index_name idx)"
  shows "route_assignment idx args X m =
     m ++ map_of (map (\<lambda>(i, a). (index_name i, a))
                   (filter (\<lambda>(i, a). ContainsIndex X i) (zip idx args)))"
  using routed_distinct[OF assms, of X args]
  by (simp only: route_assignment_map_of map_of_rev_distinct)

lemma mul_results_Inr: "mul_results (Inr x) (Inr y) = Inr (x * y)"
  by (simp add: mul_results_def)

subsection \<open>Index combinations\<close>

lemma combinations_length:
  "c \<in> set (GetAllIndexCombinations idx) \<Longrightarrow> length c = length idx"
  by (induction idx arbitrary: c) auto

lemma combinations_nonempty:
  "list_all (\<lambda>i. range_from (index_range i) \<le> range_to (index_range i)) idx \<Longrightarrow>
   GetAllIndexCombinations idx \<noteq> []"
proof (induction idx)
  case Nil
  then show ?case by simp
next
  case (Cons i idx)
  then have ne: "GetAllIndexCombinations idx \<noteq> []" by simp
  have le: "range_from (index_range i) \<le> range_to (index_range i)"
    using Cons.prems by simp
  then have "range_from (index_range i) \<in> set [range_from (index_range i) ..< Suc (range_to (index_range i))]"
    by (simp del: upt_Suc)
  then show ?case using ne by (auto simp del: upt_Suc)
qed

lemma combinations_set:
  "set (GetAllIndexCombinations idx) =
     {c. list_all2 (\<lambda>i v. range_from (index_range i) \<le> v \<and> v \<le> range_to (index_range i)) idx c}"
proof (induction idx)
  case Nil
  then show ?case by auto
next
  case (Cons i idx)
  show ?case
  proof (intro set_eqI iffI)
    fix c assume "c \<in> set (GetAllIndexCombinations (i # idx))"
    then show "c \<in> {c. list_all2 (\<lambda>i v. range_from (index_range i) \<le> v \<and> v \<le> range_to (index_range i)) (i # idx) c}"
      using Cons.IH by (auto simp del: upt_Suc)
  next
    fix c assume "c \<in> {c. list_all2 (\<lambda>i v. range_from (index_range i) \<le> v \<and> v \<le> range_to (index_range i)) (i # idx) c}"
    then obtain v vs where c: "c = v # vs"
      and v: "range_from (index_range i) \<le> v" "v \<le> range_to (index_range i)"
      and vs: "list_all2 (\<lambda>i v. range_from (index_range i) \<le> v \<and> v \<le> range_to (index_range i)) idx vs"
      by (auto simp: list_all2_Cons1)
    have "vs \<in> set (GetAllIndexCombinations idx)" using vs Cons.IH by simp
    moreover have "v \<in> set [range_from (index_range i) ..< Suc (range_to (index_range i))]"
      using v by (simp del: upt_Suc)
    ultimately show "c \<in> set (GetAllIndexCombinations (i # idx))"
      unfolding c by (auto simp del: upt_Suc)
  qed
qed


subsection \<open>Sums\<close>




subsection \<open>Products\<close>

text \<open>
  The indices over which \<open>MultipliedTensor::Evaluate\<close> sums are the indices of the first
  factor that are missing from the declared sequence. For a product built by the
  constructor, whose declared sequence is \<open>Contract\<close> of the factors' sequences, these are
  the indices of the first factor whose name also occurs in the second.
\<close>

lemma contracted_indices_of_product:
  "filter (\<lambda>index. \<not> ContainsIndex (GetIndices (new_MultipliedTensor A B)) index) (GetIndices A)
     = filter (\<lambda>index. index_name index \<in> set (map index_name (GetIndices B))) (GetIndices A)"
proof (rule filter_cong[OF refl])
  fix i assume i: "i \<in> set (GetIndices A)"
  let ?a = "GetIndices A" and ?b = "GetIndices B"
  have idx: "GetIndices (new_MultipliedTensor A B) = Contract ?a ?b"
    by (simp add: new_MultipliedTensor_def new_header_def GetIndices_def)
  have set_c: "set (Contract ?a ?b)
      = {j \<in> set ?a. index_name j \<notin> index_name ` set ?b} \<union>
        {j \<in> set ?b. index_name j \<notin> index_name ` set ?a}"
    by (auto simp: Contract_def)
  have ina: "index_name i \<in> index_name ` set ?a" using i by (rule imageI)
  show "(\<not> ContainsIndex (GetIndices (new_MultipliedTensor A B)) i)
      = (index_name i \<in> set (map index_name ?b))"
  proof (cases "index_name i \<in> index_name ` set ?b")
    case True
    have "\<not> Index_eq i j" if j: "j \<in> set (Contract ?a ?b)" for j
    proof
      assume "Index_eq i j"
      then have n: "index_name j = index_name i" by (simp add: Index_eq_def)
      from j set_c have "index_name j \<notin> index_name ` set ?b \<or> index_name j \<notin> index_name ` set ?a"
        by auto
      with n True ina show False by simp
    qed
    then show ?thesis
      using True by (auto simp: idx ContainsIndex_def list_ex_iff)
  next
    case False
    have "i \<in> set (Contract ?a ?b)" using i False set_c by simp
    moreover have "Index_eq i i" by (simp add: Index_eq_def)
    ultimately have "ContainsIndex (Contract ?a ?b) i"
      by (auto simp: ContainsIndex_def list_ex_iff)
    then show ?thesis using False by (simp add: idx)
  qed
qed

text \<open>
  Claim C5. \<open>MultipliedTensor::Evaluate\<close> raises \<open>IncompleteIndexAssignmentException\<close> when
  the number of arguments differs from the number of declared indices. For a valid argument
  vector, distinct declared names, distinct contracted names and nonempty contracted
  ranges, it returns the sum over all value combinations \<open>c\<close> of the contracted indices of
  \<open>A(assignmentA c) * B(assignmentB c)\<close>, where each assignment gives the contracted names
  the values of \<open>c\<close> and every declared index that the factor contains its argument,
  provided these evaluations return values. The combinations are exactly the vectors of
  the Cartesian product of the contracted ranges, and for no contracted index there is the
  single empty combination, hence a single term.
\<close>

theorem MultipliedTensor_Evaluate:
  fixes h :: Header and A B :: "'s::field_char_0 tensor" and args :: "nat list"
    and fa fb :: "nat list \<Rightarrow> 's"
  defines "declared \<equiv> tensor_indices h"
  defines "contracted \<equiv> filter (\<lambda>index. \<not> ContainsIndex declared index) (GetIndices A)"
  defines "routed \<equiv> (\<lambda>X. map_of (map (\<lambda>(i, a). (index_name i, a))
                              (filter (\<lambda>(i, a). ContainsIndex X i) (zip declared args))))"
  defines "assignmentA \<equiv> (\<lambda>c. map_of (zip (map index_name contracted) c) ++ routed (GetIndices A))"
  defines "assignmentB \<equiv> (\<lambda>c. map_of (zip (map index_name contracted) c) ++ routed (GetIndices B))"
  shows
    "(length args \<noteq> length declared \<longrightarrow>
        Evaluate (MultipliedTensor h A B) args = Inl IncompleteIndexAssignmentException) \<and>
     (length args = length declared \<and>
      distinct (map index_name declared) \<and> distinct (map index_name contracted) \<and>
      list_all (\<lambda>i. range_from (index_range i) \<le> range_to (index_range i)) contracted \<and>
      (\<forall>c \<in> set (GetAllIndexCombinations contracted).
          Evaluate_assignment A (assignmentA c) = Inr (fa c) \<and>
          Evaluate_assignment B (assignmentB c) = Inr (fb c)) \<longrightarrow>
        Evaluate (MultipliedTensor h A B) args
          = Inr (sum_list (map (\<lambda>c. fa c * fb c) (GetAllIndexCombinations contracted)))) \<and>
     set (GetAllIndexCombinations contracted) =
        {c. list_all2 (\<lambda>i v. range_from (index_range i) \<le> v \<and> v \<le> range_to (index_range i))
              contracted c} \<and>
     (contracted = [] \<longrightarrow> GetAllIndexCombinations contracted = [[]])"
proof (intro conjI impI)
  assume "length args \<noteq> length declared"
  then show "Evaluate (MultipliedTensor h A B) args = Inl IncompleteIndexAssignmentException"
    by (simp add: declared_def)
next
  show "set (GetAllIndexCombinations contracted) =
        {c. list_all2 (\<lambda>i v. range_from (index_range i) \<le> v \<and> v \<le> range_to (index_range i))
              contracted c}"
    by (rule combinations_set)
next
  assume "contracted = []"
  then show "GetAllIndexCombinations contracted = [[]]" by simp
next
  assume a: "length args = length declared \<and>
      distinct (map index_name declared) \<and> distinct (map index_name contracted) \<and>
      list_all (\<lambda>i. range_from (index_range i) \<le> range_to (index_range i)) contracted \<and>
      (\<forall>c \<in> set (GetAllIndexCombinations contracted).
          Evaluate_assignment A (assignmentA c) = Inr (fa c) \<and>
          Evaluate_assignment B (assignmentB c) = Inr (fb c))"
  then have len: "length args = length declared"
    and dd: "distinct (map index_name declared)"
    and dc: "distinct (map index_name contracted)"
    and ne: "GetAllIndexCombinations contracted \<noteq> []"
    by (simp_all add: combinations_nonempty)
  let ?product = "\<lambda>args'.
      (let start = (if 0 < length (GetAllIndexCombinations contracted)
                    then make_assignment contracted args' Map.empty
                    else Map.empty);
           assignment1 = route_assignment declared args (GetIndices A) start;
           assignment2 = route_assignment declared args (GetIndices B) start
       in mul_results
            (case apply_assignment assignment1 (GetIndices A) of
               Inl e \<Rightarrow> Inl e
             | Inr r \<Rightarrow> Evaluate A r)
            (case apply_assignment assignment2 (GetIndices B) of
               Inl e \<Rightarrow> Inl e
             | Inr r \<Rightarrow> Evaluate B r))"
  have each: "?product c = Inr (fa c * fb c)" if c: "c \<in> set (GetAllIndexCombinations contracted)" for c
  proof -
    have lc: "length contracted = length c" using c by (simp add: combinations_length)
    have start: "make_assignment contracted c Map.empty = map_of (zip (map index_name contracted) c)"
      using lc dc by (rule make_assignment_distinct)
    have r1: "route_assignment declared args (GetIndices A) (map_of (zip (map index_name contracted) c))
        = assignmentA c"
      unfolding assignmentA_def routed_def using dd by (rule route_assignment_distinct)
    have r2: "route_assignment declared args (GetIndices B) (map_of (zip (map index_name contracted) c))
        = assignmentB c"
      unfolding assignmentB_def routed_def using dd by (rule route_assignment_distinct)
    have ea: "Evaluate_assignment A (assignmentA c) = Inr (fa c)"
      and eb: "Evaluate_assignment B (assignmentB c) = Inr (fb c)"
      using a c by simp_all
    show ?thesis
      using ne ea eb
      by (simp add: Let_def start r1 r2 mul_results_Inr Evaluate_assignment_def[symmetric])
  qed
  have "Evaluate (MultipliedTensor h A B) args
      = add_results 0 (map ?product (GetAllIndexCombinations contracted))"
    using len ne by (simp add: declared_def contracted_def Let_def)
  also have "\<dots> = Inr (0 + sum_list (map (\<lambda>c. fa c * fb c) (GetAllIndexCombinations contracted)))"
    using each by (rule add_results_cong_map)
  finally show "Evaluate (MultipliedTensor h A B) args
          = Inr (sum_list (map (\<lambda>c. fa c * fb c) (GetAllIndexCombinations contracted)))"
    by simp
qed

text \<open>
  The product \<open>delta^a_b epsilon_{cbd}\<close>: the contracted index \<open>b\<close> runs over \<open>1, 2, 3\<close>,
  and at \<open>(1, 2, 3)\<close> for \<open>[a, c, d]\<close> the only term that does not vanish is
  \<open>delta(1, 1) * epsilon(2, 1, 3) = -1\<close>.
\<close>

theorem MultipliedTensor_Evaluate_witness:
  "Evaluate (new_MultipliedTensor delta_ab epsilon_cbd) [1, 2] = Inl IncompleteIndexAssignmentException \<and>
   Evaluate (new_MultipliedTensor delta_ab epsilon_cbd) [1, 2, 3] = Inr (- 1) \<and>
   GetAllIndexCombinations [RomanIndex ''b''] = [[1], [2], [3]] \<and>
   Evaluate (new_MultipliedTensor gamma_ab gamma_cd) [1, 1, 2, 2] = Inr 1"
proof -
  let ?h = "new_header [] [] (Contract (GetIndices delta_ab) (GetIndices epsilon_cbd)) (Some MULTIPLICATION)"
  let ?fa = "\<lambda>c. if c = [1 :: nat] then 1 else (0 :: rat)"
  let ?fb = "\<lambda>c. if c = [1 :: nat] then - 1 else (0 :: rat)"
  let ?contracted = "filter (\<lambda>index. \<not> ContainsIndex (tensor_indices ?h) index) (GetIndices delta_ab)"
  let ?routed = "\<lambda>X. map_of (map (\<lambda>(i, a). (index_name i, a))
                              (filter (\<lambda>(i, a). ContainsIndex X i) (zip (tensor_indices ?h) [1, 2, 3 :: nat])))"
  have h1: "length [1, 2 :: nat] \<noteq> length (tensor_indices ?h)"
    by code_simp
  have h2: "length [1, 2, 3 :: nat] = length (tensor_indices ?h) \<and>
      distinct (map index_name (tensor_indices ?h)) \<and> distinct (map index_name ?contracted) \<and>
      list_all (\<lambda>i. range_from (index_range i) \<le> range_to (index_range i)) ?contracted \<and>
      (\<forall>c \<in> set (GetAllIndexCombinations ?contracted).
          Evaluate_assignment delta_ab
             (map_of (zip (map index_name ?contracted) c) ++ ?routed (GetIndices delta_ab)) = Inr (?fa c) \<and>
          Evaluate_assignment epsilon_cbd
             (map_of (zip (map index_name ?contracted) c) ++ ?routed (GetIndices epsilon_cbd)) = Inr (?fb c))"
    by code_simp
  have s: "sum_list (map (\<lambda>c. ?fa c * ?fb c) (GetAllIndexCombinations ?contracted)) = - 1"
    by code_simp
  have c1: "Evaluate (new_MultipliedTensor delta_ab epsilon_cbd) [1, 2] = Inl IncompleteIndexAssignmentException"
    using MultipliedTensor_Evaluate [where h = ?h and A = delta_ab and B = epsilon_cbd and args = "[1, 2]"] h1
    unfolding new_MultipliedTensor_def by blast
  have "Evaluate (new_MultipliedTensor delta_ab epsilon_cbd) [1, 2, 3]
      = Inr (sum_list (map (\<lambda>c. ?fa c * ?fb c) (GetAllIndexCombinations ?contracted)))"
    using MultipliedTensor_Evaluate [where h = ?h and A = delta_ab and B = epsilon_cbd
        and args = "[1, 2, 3]" and fa = ?fa and fb = ?fb] h2
    unfolding new_MultipliedTensor_def by blast
  then have c2: "Evaluate (new_MultipliedTensor delta_ab epsilon_cbd) [1, 2, 3] = Inr (- 1)"
    by (simp only: s)
  have c3: "GetAllIndexCombinations [RomanIndex ''b''] = [[1], [2], [3]]"
    by code_simp
  let ?k = "new_header [] [] (Contract (GetIndices gamma_ab) (GetIndices gamma_cd)) (Some MULTIPLICATION)"
  let ?none = "filter (\<lambda>index. \<not> ContainsIndex (tensor_indices ?k) index) (GetIndices gamma_ab)"
  let ?routed' = "\<lambda>X. map_of (map (\<lambda>(i, a). (index_name i, a))
                              (filter (\<lambda>(i, a). ContainsIndex X i) (zip (tensor_indices ?k) [1, 1, 2, 2 :: nat])))"
  have n: "?none = []" by code_simp
  have combos: "GetAllIndexCombinations ?none = [[]]"
    using MultipliedTensor_Evaluate [where h = ?k and A = gamma_ab and B = gamma_cd] n by blast
  have h4: "length [1, 1, 2, 2 :: nat] = length (tensor_indices ?k) \<and>
      distinct (map index_name (tensor_indices ?k)) \<and> distinct (map index_name ?none) \<and>
      list_all (\<lambda>i. range_from (index_range i) \<le> range_to (index_range i)) ?none \<and>
      (\<forall>c \<in> set (GetAllIndexCombinations ?none).
          Evaluate_assignment gamma_ab
             (map_of (zip (map index_name ?none) c) ++ ?routed' (GetIndices gamma_ab)) = Inr ((\<lambda>c. 1) c) \<and>
          Evaluate_assignment gamma_cd
             (map_of (zip (map index_name ?none) c) ++ ?routed' (GetIndices gamma_cd)) = Inr ((\<lambda>c. 1) c))"
    by code_simp
  have "Evaluate (new_MultipliedTensor gamma_ab gamma_cd) [1, 1, 2, 2]
      = Inr (sum_list (map (\<lambda>c. (\<lambda>c. 1) c * (\<lambda>c. 1) c) (GetAllIndexCombinations ?none)))"
    using MultipliedTensor_Evaluate [where h = ?k and A = gamma_ab and B = gamma_cd
        and args = "[1, 1, 2, 2]" and fa = "\<lambda>c. 1" and fb = "\<lambda>c. 1"] h4
    unfolding new_MultipliedTensor_def by blast
  then have c4: "Evaluate (new_MultipliedTensor gamma_ab gamma_cd) [1, 1, 2, 2] = Inr 1"
    by (simp only: combos list.map sum_list.Cons sum_list.Nil mult_1 add_0_right)
  show ?thesis using c1 c2 c3 c4 by blast
qed

section \<open>Serialisation round trip\<close>

text \<open>
  For the variants with a case in both \<open>switch\<close> statements the round trip returns a tensor
  with the same indices and components; for a metric, a scaled metric and a sum of metrics
  it returns the very same tree.
\<close>

lemma round_trip_handled_variants:
  "round_trip gamma_ab = Some (Inr gamma_ab)"
  "round_trip (new_ScaledTensor gamma_ab 2) = Some (Inr (new_ScaledTensor gamma_ab 2))"
  "round_trip (new_AddedTensor gamma_ab gamma_ba) = Some (Inr (new_AddedTensor gamma_ab gamma_ba))"
  "round_trip (new_MultipliedTensor gamma_ab gamma_cd)
     = Some (Inr (new_MultipliedTensor gamma_ab gamma_cd))"
  "round_trip One = Some (Inr (SetPrintedText ''1'' (SetName ''1'' (new_ScalarTensor 1))))"
  "IsEqual (SetPrintedText ''1'' (SetName ''1'' (new_ScalarTensor 1))) One = Inr True"
  by code_simp+

text \<open>
  Claim C2 says that \<open>Deserialize(Serialize(T)).IsEqual(T)\<close> holds for every variant,
  \<open>Epsilon\<close> and \<open>Delta\<close> included. \<open>Deserialize\<close> has no case for the tags \<open>EPSILON\<close> and
  \<open>DELTA\<close>: it returns an object of the base class built from the header, whose components
  are all \<open>0\<close>, and \<open>IsEqual\<close> answers \<open>false\<close> for \<open>epsilon_{abc}\<close> as well as for
  \<open>delta^a_b\<close>.
\<close>

theorem round_trip_Epsilon_Delta_not_equal:
  "round_trip epsilon_abc
     = Some (Inr (new_AbstractTensor ''epsilon'' (CHR 0x5C # ''epsilon'') (GetIndices epsilon_abc))) \<and>
   IsEqual (new_AbstractTensor ''epsilon'' (CHR 0x5C # ''epsilon'') (GetIndices epsilon_abc) :: rat tensor)
     epsilon_abc = Inr False \<and>
   round_trip delta_ab = Some (Inr (new_AbstractTensor [] [] (GetIndices delta_ab))) \<and>
   IsEqual (new_AbstractTensor [] [] (GetIndices delta_ab) :: rat tensor) delta_ab = Inr False"
  by code_simp

section \<open>The collection stage of Simplify\<close>

text \<open>
  A row whose entries are all zero leaves the inner loop with the scalar \<open>0\<close> and the zero
  tensor it started from, whatever the summands are.
\<close>

lemma collect_row_zero_row:
  assumes "list_all (\<lambda>m. m = 0) row" and "list_all (\<lambda>i. i < length row) columns"
  shows "collect_row row summands columns scalar tensor foundBase k = Inr (RowDone scalar tensor k)"
  using assms
proof (induction columns)
  case Nil
  then show ?case by simp
next
  case (Cons i columns)
  then have "i < length row" by simp
  moreover from this Cons.prems(1) have "row ! i = 0" by (simp add: list_all_length)
  ultimately have "nth_err row i = Inr 0" by (simp add: nth_err_def)
  then show ?case using Cons by simp
qed

text \<open>
  Claim C9. For the sum \<open>gamma_{ab} + gamma_{ba}\<close> of scenario S4 the row-reduced matrix has
  the rows \<open>(1, 1)\<close> and \<open>(0, 0)\<close>: the zero row adds no term and the result is
  \<open>2 * gamma_{ab}\<close>. With the leading coefficient \<open>2\<close> in place of the unit pivot the inner
  loop reaches the branch marked \<open>SOMETHING WENT WRONG\<close> (\<open>TODO: throw exception\<close>) and
  \<open>Simplify\<close> returns the zero tensor as its ordinary result; no failure reaches the
  caller. When the coefficient stands in the last column the loop leaves by \<open>break\<close> and
  the row is passed over.
\<close>

theorem Simplify_collect_non_unit_pivot_returns_zero:
  "Simplify_collect [[1, 1], [0, 0]] [gamma_ab, gamma_ba] = Inr (new_ScaledTensor gamma_ab 2) \<and>
   Simplify_collect [[2, 1], [0, 0]] [gamma_ab, gamma_ba] = Inr new_ZeroTensor \<and>
   collect_row [0, 2] [gamma_ab, gamma_ba] [0, 1] 0 new_ZeroTensor False 0
     = Inr (RowDone 0 new_ZeroTensor 0)"
  by code_simp


end
